theory Spec2Isabelle
  imports Main "HOL-Library.Sublist"
begin

section \<open>JavaScript strings\<close>

text \<open>
  Strings of the resolver are modelled as HOL strings. The few methods of
  \<^verbatim>\<open>String.prototype\<close> that \<^verbatim>\<open>resolve.ts\<close> calls are written out below; every
  one of them is total in JavaScript as well.
\<close>

text \<open>\<^verbatim>\<open>s.indexOf(c)\<close> for a one-character needle: the first index, or \<open>-1\<close>.\<close>

fun indexOf :: "string \<Rightarrow> char \<Rightarrow> int" where
  "indexOf [] c = - 1"
| "indexOf (x # xs) c =
     (if x = c then 0
      else (let i = indexOf xs c in if i < 0 then - 1 else i + 1))"

text \<open>\<^verbatim>\<open>key.endsWith(suffix)\<close>.\<close>

definition endsWith :: "string \<Rightarrow> string \<Rightarrow> bool" where
  "endsWith s suf \<longleftrightarrow>
     length suf \<le> length s \<and> drop (length s - length suf) s = suf"

text \<open>
  \<^verbatim>\<open>s.slice(0, -n)\<close> for a length \<open>n\<close>: the end index \<open>-n\<close> counts from the end of the
  string and is clamped at 0; for \<open>n = 0\<close> the end index is \<open>-0 = 0\<close> and the slice is
  empty.
\<close>

definition sliceDropLast :: "string \<Rightarrow> nat \<Rightarrow> string" where
  "sliceDropLast s n = (if n = 0 then [] else take (length s - n) s)"

text \<open>\<^verbatim>\<open>s.includes(t)\<close>: \<open>t\<close> occurs in \<open>s\<close> as a contiguous substring.\<close>

fun includes_str :: "string \<Rightarrow> string \<Rightarrow> bool" where
  "includes_str [] t = (t = [])"
| "includes_str (x # xs) t = (take (length t) (x # xs) = t \<or> includes_str xs t)"

text \<open>
  \<^verbatim>\<open>s.replace(pat, rep)\<close> with a string pattern: the first occurrence of \<open>pat\<close> is
  replaced (the replacement strings used by the resolver hold no \<^verbatim>\<open>$\<close>).
\<close>

fun replaceFirst :: "string \<Rightarrow> string \<Rightarrow> string \<Rightarrow> string" where
  "replaceFirst [] pat rep = (if pat = [] then rep else [])"
| "replaceFirst (x # xs) pat rep =
     (if take (length pat) (x # xs) = pat then rep @ drop (length pat) (x # xs)
      else x # replaceFirst xs pat rep)"

text \<open>
  Truthiness of a value of type \<^verbatim>\<open>string | undefined\<close>: \<^verbatim>\<open>undefined\<close> and the empty
  string are falsy.
\<close>

fun truthy :: "string option \<Rightarrow> bool" where
  "truthy None = False"
| "truthy (Some s) = (s \<noteq> [])"

section \<open>The condition list\<close>

text \<open>
  \<^verbatim>\<open>getConditions\<close> (resolve.ts, lines 564 to 584). The constant
  \<^verbatim>\<open>DEV_PROD_CONDITION\<close> is imported from \<^verbatim>\<open>../constants\<close>, which is not among the
  sources; it is the first parameter here. \<^verbatim>\<open>isRequire\<close> has the type
  \<^verbatim>\<open>boolean | undefined\<close>; \<^verbatim>\<open>undefined\<close> is \<open>None\<close> and is falsy.
\<close>

definition resolveCondition :: "string \<Rightarrow> bool \<Rightarrow> string \<Rightarrow> string" where
  "resolveCondition DEV_PROD_CONDITION isProduction condition =
     (if condition = DEV_PROD_CONDITION
      then (if isProduction then ''production'' else ''development'')
      else condition)"

definition push :: "'a list \<Rightarrow> 'a \<Rightarrow> 'a list" where
  "push xs x = xs @ [x]"

definition getConditions :: "string \<Rightarrow> string list \<Rightarrow> bool \<Rightarrow> bool option \<Rightarrow> string list" where
  "getConditions DEV_PROD_CONDITION conditions isProduction isRequire =
     (let resolvedConditions = map (resolveCondition DEV_PROD_CONDITION isProduction) conditions
      in if isRequire = Some True
         then push resolvedConditions ''require''
         else push resolvedConditions ''import'')"

section \<open>The browser-field mapper\<close>

text \<open>
  A value of the object-form \<^verbatim>\<open>browser\<close> field has the type \<^verbatim>\<open>string | false\<close>.
\<close>

datatype browser_value = BrowserPath string | BrowserFalse

text \<open>
  The table \<^verbatim>\<open>Record<string, string | false>\<close> is an association list whose order is
  the order in which \<^verbatim>\<open>for (const key in map)\<close> visits the keys; \<^verbatim>\<open>map[key]\<close> is
  \<open>map_of\<close>.
\<close>

type_synonym browser_map = "(string \<times> browser_value) list"

text \<open>\<^verbatim>\<open>equalWithoutSuffix\<close> (lines 744 to 746).\<close>

definition equalWithoutSuffix :: "string \<Rightarrow> string \<Rightarrow> string \<Rightarrow> bool" where
  "equalWithoutSuffix path key sfx \<longleftrightarrow>
     endsWith key sfx \<and> sliceDropLast key (length sfx) = path"

text \<open>
  \<^verbatim>\<open>mapWithBrowserField\<close> (lines 726 to 742). \<^verbatim>\<open>path.posix.normalize\<close> belongs to the
  platform, not to the repository: it is the parameter \<open>normalizeFn\<close>. The loop over the
  keys is \<open>mapWithBrowserField_loop\<close>; falling out of it returns \<^verbatim>\<open>undefined\<close>, which
  is \<open>None\<close>.
\<close>

fun mapWithBrowserField_loop ::
  "(string \<Rightarrow> string) \<Rightarrow> string \<Rightarrow> browser_map \<Rightarrow> string list \<Rightarrow> browser_value option" where
  "mapWithBrowserField_loop normalizeFn normalizedPath m [] = None"
| "mapWithBrowserField_loop normalizeFn normalizedPath m (key # keys) =
     (let normalizedKey = normalizeFn key
      in if normalizedPath = normalizedKey
            \<or> equalWithoutSuffix normalizedPath normalizedKey ''.js''
            \<or> equalWithoutSuffix normalizedPath normalizedKey ''/index.js''
         then map_of m key
         else mapWithBrowserField_loop normalizeFn normalizedPath m keys)"

definition mapWithBrowserField ::
  "(string \<Rightarrow> string) \<Rightarrow> string \<Rightarrow> browser_map \<Rightarrow> browser_value option" where
  "mapWithBrowserField normalizeFn relativePathInPkgDir m =
     (let normalizedPath = normalizeFn relativePathInPkgDir
      in mapWithBrowserField_loop normalizeFn normalizedPath m (map fst m))"

section \<open>POSIX paths of the platform\<close>

text \<open>
  The functions of Node's \<^verbatim>\<open>path\<close> module are parameters of the resolver below.
  For concrete runs they are instantiated with the following models of the POSIX
  variants, written from the documented behaviour of Node.
\<close>

text \<open>Splitting at a separator character; \<open>splitOn c s\<close> is never empty.\<close>

fun splitOn :: "char \<Rightarrow> string \<Rightarrow> string list" where
  "splitOn c [] = [[]]"
| "splitOn c (x # xs) =
     (if x = c then [] # splitOn c xs
      else (case splitOn c xs of
              [] \<Rightarrow> [[x]]
            | seg # segs \<Rightarrow> (x # seg) # segs))"

fun joinWith :: "string \<Rightarrow> string list \<Rightarrow> string" where
  "joinWith sep [] = []"
| "joinWith sep [s] = s"
| "joinWith sep (s # t # ss) = s @ sep @ joinWith sep (t # ss)"

text \<open>
  One step of normalisation per segment; \<open>acc\<close> is the reversed list of the segments
  kept so far. Empty segments and \<^verbatim>\<open>.\<close> vanish; \<^verbatim>\<open>..\<close> removes the segment before it,
  and is kept above the start of a relative path only.
\<close>

fun normalizeSegments :: "bool \<Rightarrow> string list \<Rightarrow> string list \<Rightarrow> string list" where
  "normalizeSegments allowAboveRoot acc [] = rev acc"
| "normalizeSegments allowAboveRoot acc (seg # segs) =
     (if seg = [] \<or> seg = ''.'' then normalizeSegments allowAboveRoot acc segs
      else if seg = ''..'' then
        (case acc of
           [] \<Rightarrow> normalizeSegments allowAboveRoot (if allowAboveRoot then [''..''] else []) segs
         | a # as \<Rightarrow>
             if a = ''..'' then
               normalizeSegments allowAboveRoot (if allowAboveRoot then ''..'' # acc else acc) segs
             else normalizeSegments allowAboveRoot as segs)
      else normalizeSegments allowAboveRoot (seg # acc) segs)"

definition posix_normalize :: "string \<Rightarrow> string" where
  "posix_normalize p =
     (if p = [] then ''.''
      else
        (let isAbsolute = (hd p = CHR ''/'');
             trailingSeparator = (last p = CHR ''/'');
             res = joinWith ''/'' (normalizeSegments (\<not> isAbsolute) [] (splitOn CHR ''/'' p))
         in if res = [] then (if isAbsolute then ''/'' else if trailingSeparator then ''./'' else ''.'')
            else (if isAbsolute then ''/'' else []) @ res @ (if trailingSeparator then ''/'' else [])))"

text \<open>
  \<open>lastSegment p\<close> is the last portion of a path: trailing separators are ignored,
  and what stands after the last remaining separator is taken.
\<close>

definition stripTrailingSlashes :: "string \<Rightarrow> string" where
  "stripTrailingSlashes p = rev (dropWhile (\<lambda>c. c = CHR ''/'') (rev p))"

definition afterLastSlash :: "string \<Rightarrow> string" where
  "afterLastSlash p = rev (takeWhile (\<lambda>c. c \<noteq> CHR ''/'') (rev p))"

definition lastSegment :: "string \<Rightarrow> string" where
  "lastSegment p = afterLastSlash (stripTrailingSlashes p)"

definition posix_basename :: "string \<Rightarrow> string" where
  "posix_basename p = lastSegment p"

text \<open>
  \<^verbatim>\<open>path.extname\<close>: from the last dot of the last portion to its end; empty when there
  is no dot, when the only dot is the first character of the portion, and for \<^verbatim>\<open>..\<close>.
\<close>

definition posix_extname :: "string \<Rightarrow> string" where
  "posix_extname p =
     (let seg = lastSegment p
      in if CHR ''.'' \<notin> set seg then []
         else
           (let startDot = length seg - 1 - length (takeWhile (\<lambda>c. c \<noteq> CHR ''.'') (rev seg))
            in if startDot = 0 \<or> seg = ''..'' then [] else drop startDot seg))"

text \<open>
  \<^verbatim>\<open>path.dirname\<close>: trailing separators are ignored, and the path is cut at the last
  separator that remains, the first character apart.
\<close>

definition posix_dirname :: "string \<Rightarrow> string" where
  "posix_dirname p =
     (if p = [] then ''.''
      else
        (let hasRoot = (hd p = CHR ''/'');
             body = stripTrailingSlashes (tl p)
         in if CHR ''/'' \<notin> set body then (if hasRoot then ''/'' else ''.'')
            else
              (let end = length body - length (afterLastSlash body)
               in if hasRoot \<and> end = 1 then ''//'' else take end p)))"

text \<open>
  \<^verbatim>\<open>path.join\<close> of two arguments: the non-empty arguments are joined with a separator
  and the result is normalised.
\<close>

definition posix_join :: "string \<Rightarrow> string \<Rightarrow> string" where
  "posix_join a b =
     (if a = [] \<and> b = [] then ''.''
      else if a = [] then posix_normalize b
      else if b = [] then posix_normalize a
      else posix_normalize (a @ ''/'' @ b))"

definition posix_isAbsolute :: "string \<Rightarrow> bool" where
  "posix_isAbsolute p \<longleftrightarrow> p \<noteq> [] \<and> hd p = CHR ''/''"

section \<open>Data model\<close>

subsection \<open>Errors\<close>

text \<open>
  Every \<^verbatim>\<open>throw\<close> of the resolver is a value. \<open>PackageEntryFailure\<close> is the error made
  by \<^verbatim>\<open>packageEntryFailure\<close>, \<open>SubpathNotExported\<close> the one thrown by
  \<^verbatim>\<open>resolveDeepImport\<close>; both carry their message. \<open>CallStackExceeded\<close> is the
  \<^verbatim>\<open>RangeError\<close> of the engine when a call finds no stack left. \<open>CollaboratorError\<close>
  is an error thrown by code outside the resolver (the manifest loader, the export-map
  library, the file system), with its message and its \<^verbatim>\<open>code\<close> property.
\<close>

datatype resolve_error =
    PackageEntryFailure string
  | SubpathNotExported string
  | CallStackExceeded
  | CollaboratorError string "string option"

type_synonym thrown = "string \<times> string option"

definition ERR_RESOLVE_PACKAGE_ENTRY_FAIL :: string where
  "ERR_RESOLVE_PACKAGE_ENTRY_FAIL = ''ERR_RESOLVE_PACKAGE_ENTRY_FAIL''"

definition browserExternalId :: string where
  "browserExternalId = ''__vite-browser-external''"

definition optionalPeerDepId :: string where
  "optionalPeerDepId = ''__vite-optional-peer-dep''"

fun error_message :: "resolve_error \<Rightarrow> string" where
  "error_message (PackageEntryFailure msg) = msg"
| "error_message (SubpathNotExported msg) = msg"
| "error_message CallStackExceeded = ''Maximum call stack size exceeded''"
| "error_message (CollaboratorError msg c) = msg"

fun error_code :: "resolve_error \<Rightarrow> string option" where
  "error_code (PackageEntryFailure msg) = Some ERR_RESOLVE_PACKAGE_ENTRY_FAIL"
| "error_code (SubpathNotExported msg) = None"
| "error_code CallStackExceeded = None"
| "error_code (CollaboratorError msg c) = c"

text \<open>The call of a collaborator that may throw.\<close>

fun collaborator :: "thrown + 'a \<Rightarrow> resolve_error + 'a" where
  "collaborator (Inl (msg, c)) = Inl (CollaboratorError msg c)"
| "collaborator (Inr v) = Inr v"

subsection \<open>Manifests and package descriptors\<close>

text \<open>
  The \<^verbatim>\<open>exports\<close> field is declared as
  \<^verbatim>\<open>string | Record<string, any> | string[]\<close>; an absent field is \<open>None\<close>. The
  targets of an export map are read by the export-map library only.
\<close>

datatype export_target =
    Target string
  | TargetNull
  | Conditional "(string \<times> export_target) list"
  | Fallbacks "export_target list"

datatype exports_value =
    ExportsString string
  | ExportsArray "string list"
  | ExportsObject "(string \<times> export_target) list"

text \<open>The \<^verbatim>\<open>browser\<close> field: \<^verbatim>\<open>string | Record<string, string | false>\<close>, or absent.\<close>

datatype browser_field =
    BrowserString string
  | BrowserObject browser_map

record peer_meta =
  meta_optional :: "bool option"

text \<open>
  The manifest fields the resolver reads. \<open>data_field\<close> stands for
  \<^verbatim>\<open>data[field]\<close> of any further field, when that value is a string.
\<close>

record manifest =
  data_name :: string
  data_main :: "string option"
  data_module :: "string option"
  data_browser :: "browser_field option"
  data_exports :: "exports_value option"
  data_peerDependencies :: "(string \<times> string) list option"
  data_peerDependenciesMeta :: "(string \<times> peer_meta) list option"
  data_field :: "string \<Rightarrow> string option"

text \<open>\<^verbatim>\<open>moduleSideEffects\<close>, the result of \<^verbatim>\<open>hasSideEffects\<close>.\<close>

datatype side_effects = SideEffects bool | NoTreeshake | SideEffectsNull

text \<open>
  \<^verbatim>\<open>PackageData\<close>. The two cache callbacks close over one table per descriptor, which
  is \<open>pkg_resolvedCache\<close>; the options of a resolution never change during it, so the
  table is keyed by the subpath alone.
\<close>

record PackageData =
  pkg_dir :: string
  pkg_data :: manifest
  pkg_resolvedCache :: "string \<Rightarrow> string option"
  pkg_hasSideEffects :: "string \<Rightarrow> side_effects"

definition getResolvedCache :: "PackageData \<Rightarrow> string \<Rightarrow> string option" where
  "getResolvedCache pkg key = pkg_resolvedCache pkg key"

definition setResolvedCache :: "PackageData \<Rightarrow> string \<Rightarrow> string \<Rightarrow> PackageData" where
  "setResolvedCache pkg key entry =
     pkg\<lparr>pkg_resolvedCache := (pkg_resolvedCache pkg)(key \<mapsto> entry)\<rparr>"

text \<open>Truthiness of the \<^verbatim>\<open>exports\<close> field, as \<^verbatim>\<open>if (data.exports)\<close> tests it.\<close>

fun exports_truthy :: "exports_value option \<Rightarrow> bool" where
  "exports_truthy None = False"
| "exports_truthy (Some (ExportsString s)) = (s \<noteq> [])"
| "exports_truthy (Some (ExportsArray a)) = True"
| "exports_truthy (Some (ExportsObject m)) = True"

text \<open>
  \<^verbatim>\<open>typeof data[field] === 'string'\<close> and the value \<^verbatim>\<open>data[field]\<close> then.
\<close>

definition stringField :: "manifest \<Rightarrow> string \<Rightarrow> string option" where
  "stringField data field =
     (if field = ''name'' then Some (data_name data)
      else if field = ''main'' then data_main data
      else if field = ''module'' then data_module data
      else if field = ''browser'' then
        (case data_browser data of Some (BrowserString s) \<Rightarrow> Some s | _ \<Rightarrow> None)
      else if field = ''exports'' then
        (case data_exports data of Some (ExportsString s) \<Rightarrow> Some s | _ \<Rightarrow> None)
      else if field = ''peerDependencies'' \<or> field = ''peerDependenciesMeta'' then None
      else data_field data field)"

subsection \<open>Options\<close>

text \<open>The fields of \<^verbatim>\<open>InternalResolveOptions\<close> that the resolver reads.\<close>

record InternalResolveOptions =
  opt_root :: string
  opt_dedupe :: "string list"
  opt_isBuild :: bool
  opt_isProduction :: bool
  opt_isRequire :: "bool option"
  opt_preserveSymlinks :: bool
  opt_mainFields :: "string list"
  opt_conditions :: "string list"
  opt_extensions :: "string list"
  opt_builtins :: "string list"
  opt_tryPrefix :: "string option"
  opt_idOnly :: "bool option"
  opt_scan :: "bool option"

subsection \<open>Collaborators\<close>

text \<open>What \<^verbatim>\<open>fs.statSync\<close> reports of a path that exists.\<close>

datatype stats = IsFile | IsDirectory | IsOther

datatype exports_kind = Imports | Exports

text \<open>
  The code that \<^verbatim>\<open>resolve.ts\<close> imports and that is not among the sources: the file
  system, Node's \<^verbatim>\<open>path\<close>, the helpers of \<^verbatim>\<open>../utils\<close>, \<^verbatim>\<open>../packages\<close> and
  \<^verbatim>\<open>../external\<close>, the libraries \<^verbatim>\<open>resolve.exports\<close> and \<^verbatim>\<open>mlly\<close>. The resolver
  below takes them as one record of parameters, so that what is proved of it holds
  whatever they compute.

  \<open>tryStatSync\<close> never throws (it returns \<^verbatim>\<open>undefined\<close> instead).
  \<open>deepImportRE_exec id\<close> is the package name \<^verbatim>\<open>deepMatch[1] || deepMatch[2]\<close> captured
  by \<^verbatim>\<open>deepImportRE.exec(id)\<close>, and \<open>None\<close> when the pattern does not match.
  \<open>resolve_exports\<close> and \<open>resolve_imports\<close> are the two functions of
  \<^verbatim>\<open>resolve.exports\<close>, called with the manifest, the key and the condition list
  (\<^verbatim>\<open>unsafe: true\<close> always); they return an array, or nothing, or throw.
\<close>

record env =
  tryStatSync :: "string \<Rightarrow> stats option"
  fs_existsSync :: "string \<Rightarrow> bool"
  fs_readFileSync :: "string \<Rightarrow> thrown + string"
  safeRealpathSync :: "string \<Rightarrow> string"
  normalizePath :: "string \<Rightarrow> string"
  path_dirname :: "string \<Rightarrow> string"
  path_extname :: "string \<Rightarrow> string"
  path_basename :: "string \<Rightarrow> string"
  path_join :: "string \<Rightarrow> string \<Rightarrow> string"
  path_posix_normalize :: "string \<Rightarrow> string"
  path_isAbsolute :: "string \<Rightarrow> bool"
  isInNodeModules :: "string \<Rightarrow> bool"
  hasESMSyntax :: "string \<Rightarrow> bool"
  loadPackageData :: "string \<Rightarrow> thrown + PackageData"
  resolve_exports :: "manifest \<Rightarrow> string \<Rightarrow> string list \<Rightarrow> thrown + string list option"
  resolve_imports :: "manifest \<Rightarrow> string \<Rightarrow> string list \<Rightarrow> thrown + string list option"
  DEV_PROD_CONDITION :: string
  deepImportRE_exec :: "string \<Rightarrow> string option"
  bareImportRE_test :: "string \<Rightarrow> bool"
  isBuiltin :: "string list \<Rightarrow> string \<Rightarrow> bool"
  getNpmPackageName :: "string \<Rightarrow> string option"
  findNearestPackageData :: "string \<Rightarrow> PackageData option"
  findNearestMainPackageData :: "string \<Rightarrow> PackageData option"
  resolvePackageData :: "string \<Rightarrow> string \<Rightarrow> bool \<Rightarrow> PackageData option"

text \<open>
  Modelled from the spec: \<^verbatim>\<open>cleanUrl\<close> and \<^verbatim>\<open>splitFileAndPostfix\<close> of
  \<^verbatim>\<open>../sharedUtils\<close> are not among the sources. The postfix is the trailing
  query-string or fragment portion of a specifier: it starts at the first \<^verbatim>\<open>?\<close> or
  \<^verbatim>\<open>#\<close>, and the file is what stands before it.
\<close>

definition cleanUrl :: "string \<Rightarrow> string" where
  "cleanUrl url = takeWhile (\<lambda>c. c \<noteq> CHR ''?'' \<and> c \<noteq> CHR ''#'') url"

definition splitFileAndPostfix :: "string \<Rightarrow> string \<times> string" where
  "splitFileAndPostfix path =
     (let file = cleanUrl path in (file, drop (length file) path))"

section \<open>The file-system probe\<close>

text \<open>\<^verbatim>\<open>getRealPath\<close> (lines 780 to 785).\<close>

definition getRealPath :: "env \<Rightarrow> string \<Rightarrow> bool \<Rightarrow> string" where
  "getRealPath env resolved preserveSymlinks =
     normalizePath env
       (if \<not> preserveSymlinks then safeRealpathSync env resolved else resolved)"

text \<open>\<^verbatim>\<open>isDirectory\<close> (lines 787 to 790).\<close>

definition isDirectory :: "env \<Rightarrow> string \<Rightarrow> bool" where
  "isDirectory env path = (tryStatSync env path = Some IsDirectory)"

text \<open>\<^verbatim>\<open>tryResolveRealFile\<close> (lines 748 to 754).\<close>

definition tryResolveRealFile :: "env \<Rightarrow> string \<Rightarrow> bool \<Rightarrow> string option" where
  "tryResolveRealFile env file preserveSymlinks =
     (if tryStatSync env file = Some IsFile
      then Some (getRealPath env file preserveSymlinks)
      else None)"

text \<open>
  \<^verbatim>\<open>tryResolveRealFileWithExtensions\<close> (lines 756 to 765): the first extension whose
  probe is truthy.
\<close>

fun tryResolveRealFileWithExtensions ::
  "env \<Rightarrow> string \<Rightarrow> string list \<Rightarrow> bool \<Rightarrow> string option" where
  "tryResolveRealFileWithExtensions env filePath [] preserveSymlinks = None"
| "tryResolveRealFileWithExtensions env filePath (ext # extensions) preserveSymlinks =
     (let res = tryResolveRealFile env (filePath @ ext) preserveSymlinks
      in if truthy res then res
         else tryResolveRealFileWithExtensions env filePath extensions preserveSymlinks)"

text \<open>
  \<^verbatim>\<open>tryResolveRealFileOrType\<close> (lines 767 to 778): the result object holds an
  optional \<^verbatim>\<open>path\<close> and a \<^verbatim>\<open>type\<close>.
\<close>

datatype file_type = TypeDirectory | TypeFile

definition tryResolveRealFileOrType ::
  "env \<Rightarrow> string \<Rightarrow> bool \<Rightarrow> (string option \<times> file_type) option" where
  "tryResolveRealFileOrType env file preserveSymlinks =
     (let fileStat = tryStatSync env file
      in if fileStat = Some IsFile
         then Some (Some (getRealPath env file preserveSymlinks), TypeFile)
         else if fileStat = Some IsDirectory then Some (None, TypeDirectory)
         else None)"

text \<open>\<^verbatim>\<open>fileResult?.path\<close> and \<^verbatim>\<open>fileResult?.type\<close>.\<close>

fun fileResult_path :: "(string option \<times> file_type) option \<Rightarrow> string option" where
  "fileResult_path None = None"
| "fileResult_path (Some (p, t)) = p"

fun fileResult_type :: "(string option \<times> file_type) option \<Rightarrow> file_type option" where
  "fileResult_type None = None"
| "fileResult_type (Some (p, t)) = Some t"

text \<open>
  \<^verbatim>\<open>isPossibleTsOutput\<close> (lines 188 and 189): the pattern
  \<^verbatim>\<open>/\.(?:js|mjs|cjs|jsx)$/\<close>, tested on the whole path.
\<close>

definition isPossibleTsOutput :: "string \<Rightarrow> bool" where
  "isPossibleTsOutput url \<longleftrightarrow>
     endsWith url ''.js'' \<or> endsWith url ''.mjs'' \<or> endsWith url ''.cjs'' \<or> endsWith url ''.jsx''"

section \<open>The extension and prefix resolver\<close>

text \<open>
  The first half of \<^verbatim>\<open>tryCleanFsResolve\<close> (lines 206 to 258), which probes beside
  the path: the typed-source swap, the configured extensions, then both again under
  the configured prefix. It returns the probe that was truthy, and \<open>None\<close> when the
  code goes on to line 260.
\<close>

definition tryCleanFsResolve_beside ::
  "env \<Rightarrow> string \<Rightarrow> InternalResolveOptions \<Rightarrow> string option" where
  "tryCleanFsResolve_beside env file options =
     (let tryPrefix = opt_tryPrefix options;
          extensions = opt_extensions options;
          preserveSymlinks = opt_preserveSymlinks options;
          possibleJsToTs = isPossibleTsOutput file
      in if possibleJsToTs \<or> extensions \<noteq> [] \<or> truthy tryPrefix then
           (let dirPath = path_dirname env file
            in if isDirectory env dirPath then
                 (let fileExt = path_extname env file;
                      fileName = sliceDropLast file (length fileExt);
                      swapped =
                        (if possibleJsToTs
                         then tryResolveRealFile env
                                (fileName @ replaceFirst fileExt ''js'' ''ts'') preserveSymlinks
                         else None)
                  in if truthy swapped then swapped
                     else
                       (let tsx =
                              (if possibleJsToTs \<and> fileExt = ''.js''
                               then tryResolveRealFile env (fileName @ ''.tsx'') preserveSymlinks
                               else None)
                        in if truthy tsx then tsx
                           else
                             (let probed =
                                    tryResolveRealFileWithExtensions env file extensions
                                      preserveSymlinks
                              in if truthy probed then probed
                                 else
                                   (case tryPrefix of
                                      None \<Rightarrow> None
                                    | Some pre \<Rightarrow>
                                        if pre = [] then None
                                        else
                                          (let prefixed =
                                                 dirPath @ ''/'' @ pre @ path_basename env file;
                                               res = tryResolveRealFile env prefixed preserveSymlinks
                                           in if truthy res then res
                                              else
                                                (let res' =
                                                       tryResolveRealFileWithExtensions env
                                                         prefixed extensions preserveSymlinks
                                                 in if truthy res' then res' else None))))))
               else None)
         else None)"

text \<open>
  The end of \<^verbatim>\<open>tryCleanFsResolve\<close> (lines 283 to 303): the index file of a directory,
  plain and then prefixed.
\<close>

definition tryCleanFsResolve_index ::
  "env \<Rightarrow> string \<Rightarrow> InternalResolveOptions \<Rightarrow> string option" where
  "tryCleanFsResolve_index env dirPath options =
     (let tryPrefix = opt_tryPrefix options;
          extensions = opt_extensions options;
          preserveSymlinks = opt_preserveSymlinks options;
          res = tryResolveRealFileWithExtensions env (dirPath @ ''/index'') extensions
                  preserveSymlinks
      in if truthy res then res
         else
           (case tryPrefix of
              None \<Rightarrow> None
            | Some pre \<Rightarrow>
                if pre = [] then None
                else
                  (let res' =
                         tryResolveRealFileWithExtensions env (dirPath @ ''/'' @ pre @ ''index'')
                           extensions preserveSymlinks
                   in if truthy res' then res' else None)))"

section \<open>Package entries\<close>

text \<open>\<^verbatim>\<open>packageEntryFailure\<close> (lines 554 to 562); it always throws.\<close>

definition packageEntryFailure :: "string \<Rightarrow> string option \<Rightarrow> resolve_error" where
  "packageEntryFailure ident details =
     PackageEntryFailure
       (''Failed to resolve entry for package \"'' @ ident @ ''\". ''
        @ ''The package may have incorrect main/module/exports specified in its package.json''
        @ (case details of
             None \<Rightarrow> ''.''
           | Some d \<Rightarrow> if d = [] then ''.'' else '': '' @ d))"

text \<open>\<^verbatim>\<open>resolveExportsOrImports\<close> (lines 586 to 601).\<close>

definition resolveExportsOrImports ::
  "env \<Rightarrow> manifest \<Rightarrow> string \<Rightarrow> InternalResolveOptions \<Rightarrow> exports_kind
     \<Rightarrow> resolve_error + string option" where
  "resolveExportsOrImports env pkg key options type =
     (let conditions =
            getConditions (DEV_PROD_CONDITION env) (opt_conditions options)
              (opt_isProduction options) (opt_isRequire options);
          fn = (if type = Imports then resolve_imports env else resolve_exports env)
      in case collaborator (fn pkg key conditions) of
           Inl e \<Rightarrow> Inl e
         | Inr result \<Rightarrow>
             Inr (case result of
                    None \<Rightarrow> None
                  | Some [] \<Rightarrow> None
                  | Some (r # rs) \<Rightarrow> Some r))"

text \<open>
  The candidate of one turn of the loop over \<^verbatim>\<open>entryPoints\<close> (lines 509 to 526): the
  entry after the stylesheet rule or the object-form browser field was applied, and
  \<^verbatim>\<open>skipPackageJson\<close>.
\<close>

definition entryCandidate ::
  "env \<Rightarrow> manifest \<Rightarrow> InternalResolveOptions \<Rightarrow> string \<Rightarrow> string \<times> bool" where
  "entryCandidate env data options entry =
     (if (case opt_mainFields options of [] \<Rightarrow> False | f # fs \<Rightarrow> f = ''sass'')
         \<and> path_extname env entry \<notin> set (opt_extensions options)
      then ([], True)
      else
        (case data_browser data of
           Some (BrowserObject browserField) \<Rightarrow>
             if ''browser'' \<in> set (opt_mainFields options) then
               (case mapWithBrowserField (path_posix_normalize env) entry browserField of
                  Some (BrowserPath mapped) \<Rightarrow> if mapped \<noteq> [] then (mapped, False) else (entry, False)
                | Some BrowserFalse \<Rightarrow> (entry, False)
                | None \<Rightarrow> (entry, False))
             else (entry, False)
         | _ \<Rightarrow> (entry, False)))"

text \<open>
  \<^verbatim>\<open>res + postfix\<close> behind \<^verbatim>\<open>if (res)\<close>: a falsy \<open>res\<close> gives \<open>None\<close>.
\<close>

fun withPostfix :: "string option \<Rightarrow> string \<Rightarrow> string option" where
  "withPostfix None postfix = None"
| "withPostfix (Some res) postfix = (if res = [] then None else Some (res @ postfix))"

section \<open>The resolver\<close>

text \<open>
  \<^verbatim>\<open>tryFsResolve\<close> (lines 159 to 186), \<^verbatim>\<open>tryCleanFsResolve\<close> (lines 191 to 305),
  \<^verbatim>\<open>resolvePackageEntry\<close> (lines 464 to 552) and \<^verbatim>\<open>tryResolveBrowserEntry\<close>
  (lines 669 to 716) call each other: a directory that holds a manifest is resolved
  through the entry of that package, whose candidates are resolved on the file system
  again. The body of each function is written first, with the function it calls as
  its first argument (the options of a resolution are passed on unchanged, so they
  are fixed in that argument); the functions themselves follow.

  A result \<open>Inl e\<close> is a throw of \<open>e\<close>; \<open>Inr None\<close> is the return of \<^verbatim>\<open>undefined\<close>.
\<close>

type_synonym fs_resolver = "string \<Rightarrow> bool \<Rightarrow> bool \<Rightarrow> resolve_error + string option"

type_synonym entry_resolver =
  "string \<Rightarrow> PackageData \<Rightarrow> resolve_error + (string option \<times> PackageData)"

text \<open>
  The body of \<^verbatim>\<open>tryFsResolve\<close>; \<open>cleanFsResolve file\<close> is
  \<^verbatim>\<open>tryCleanFsResolve(file, options, tryIndex, skipPackageJson)\<close>.
\<close>

definition tryFsResolve_body ::
  "(string \<Rightarrow> resolve_error + string option) \<Rightarrow> env \<Rightarrow> string
     \<Rightarrow> resolve_error + string option" where
  "tryFsResolve_body cleanFsResolve env fsPath =
     (let hashIndex = indexOf fsPath CHR ''#'';
          queryIndex = indexOf fsPath CHR ''?''
      in case
           (if hashIndex \<ge> 0 \<and> isInNodeModules env fsPath
               \<and> (queryIndex < 0 \<or> queryIndex > hashIndex)
            then
              (let file = (if queryIndex > hashIndex then take (nat queryIndex) fsPath else fsPath)
               in case cleanFsResolve file of
                    Inl e \<Rightarrow> Inl e
                  | Inr res \<Rightarrow> Inr (withPostfix res (drop (length file) fsPath)))
            else Inr None)
         of
           Inl e \<Rightarrow> Inl e
         | Inr (Some literal) \<Rightarrow> Inr (Some literal)
         | Inr None \<Rightarrow>
             (let (file, postfix) = splitFileAndPostfix fsPath
              in case cleanFsResolve file of
                   Inl e \<Rightarrow> Inl e
                 | Inr res \<Rightarrow> Inr (withPostfix res postfix)))"

text \<open>
  The body of \<^verbatim>\<open>tryCleanFsResolve\<close>; \<open>packageEntry dirPath pkg\<close> is
  \<^verbatim>\<open>resolvePackageEntry(dirPath, pkg, options)\<close>. The descriptor loaded here is
  dropped with the call, and so is what the entry resolver wrote to its cache.
\<close>

definition tryCleanFsResolve_body ::
  "entry_resolver \<Rightarrow> env \<Rightarrow> string \<Rightarrow> InternalResolveOptions \<Rightarrow> bool \<Rightarrow> bool
     \<Rightarrow> resolve_error + string option" where
  "tryCleanFsResolve_body packageEntry env file options tryIndex skipPackageJson =
     (let fileResult = tryResolveRealFileOrType env file (opt_preserveSymlinks options)
      in if truthy (fileResult_path fileResult) then Inr (fileResult_path fileResult)
         else
           (let res = tryCleanFsResolve_beside env file options
            in if truthy res then Inr res
               else if tryIndex \<and> fileResult_type fileResult = Some TypeDirectory then
                 (let dirPath = file;
                      pkgPath = dirPath @ ''/package.json'';
                      attempt =
                        (if \<not> skipPackageJson \<and> fs_existsSync env pkgPath then
                           (case collaborator
                                   (loadPackageData env
                                      (if \<not> opt_preserveSymlinks options
                                       then safeRealpathSync env pkgPath else pkgPath)) of
                              Inl e \<Rightarrow> Inl e
                            | Inr pkg \<Rightarrow>
                                (case packageEntry dirPath pkg of
                                   Inl e \<Rightarrow> Inl e
                                 | Inr (entry, pkg') \<Rightarrow> Inr (Some entry)))
                         else Inr None)
                  in case attempt of
                       Inr (Some entry) \<Rightarrow> Inr entry
                     | Inr None \<Rightarrow> Inr (tryCleanFsResolve_index env dirPath options)
                     | Inl e \<Rightarrow>
                         if error_code e \<noteq> Some ERR_RESOLVE_PACKAGE_ENTRY_FAIL
                            \<and> error_code e \<noteq> Some ''ENOENT''
                         then Inl e
                         else Inr (tryCleanFsResolve_index env dirPath options))
               else Inr None))"

text \<open>
  \<^verbatim>\<open>tryResolveBrowserEntry\<close> (lines 669 to 716); \<open>fsResolve\<close> is \<^verbatim>\<open>tryFsResolve\<close> with
  the options of the call.
\<close>

definition tryResolveBrowserEntry ::
  "fs_resolver \<Rightarrow> env \<Rightarrow> string \<Rightarrow> manifest \<Rightarrow> InternalResolveOptions
     \<Rightarrow> resolve_error + string option" where
  "tryResolveBrowserEntry fsResolve env dir data options =
     (case (case data_browser data of
              Some (BrowserString s) \<Rightarrow> Some s
            | Some (BrowserObject m) \<Rightarrow>
                (case map_of m ''.'' of Some (BrowserPath s) \<Rightarrow> Some s | _ \<Rightarrow> None)
            | None \<Rightarrow> None) of
        None \<Rightarrow> Inr None
      | Some browserEntry \<Rightarrow>
          if browserEntry = [] then Inr None
          else if opt_isRequire options \<noteq> Some True
                  \<and> ''module'' \<in> set (opt_mainFields options)
                  \<and> data_module data \<noteq> None
                  \<and> data_module data \<noteq> Some browserEntry
          then
            (case fsResolve (path_join env dir browserEntry) True False of
               Inl e \<Rightarrow> Inl e
             | Inr resolvedBrowserEntry \<Rightarrow>
                 (case resolvedBrowserEntry of
                    None \<Rightarrow> Inr None
                  | Some r \<Rightarrow>
                      if r = [] then Inr None
                      else
                        (case collaborator (fs_readFileSync env r) of
                           Inl e \<Rightarrow> Inl e
                         | Inr content \<Rightarrow>
                             if hasESMSyntax env content then Inr (Some browserEntry)
                             else Inr (data_module data))))
          else Inr (Some browserEntry))"

text \<open>
  The loop over \<^verbatim>\<open>options.mainFields\<close> (lines 487 to 498); the last argument is the
  current value of \<^verbatim>\<open>entryPoint\<close>.
\<close>

fun mainFields_loop ::
  "fs_resolver \<Rightarrow> env \<Rightarrow> string \<Rightarrow> manifest \<Rightarrow> InternalResolveOptions \<Rightarrow> string list
     \<Rightarrow> string option \<Rightarrow> resolve_error + string option" where
  "mainFields_loop fsResolve env dir data options [] entryPoint = Inr entryPoint"
| "mainFields_loop fsResolve env dir data options (field # moreFields) entryPoint =
     (if field = ''browser'' then
        (case tryResolveBrowserEntry fsResolve env dir data options of
           Inl e \<Rightarrow> Inl e
         | Inr browserEntry \<Rightarrow>
             if truthy browserEntry then Inr browserEntry
             else mainFields_loop fsResolve env dir data options moreFields browserEntry)
      else
        (case stringField data field of
           Some s \<Rightarrow> Inr (Some s)
         | None \<Rightarrow> mainFields_loop fsResolve env dir data options moreFields entryPoint))"

text \<open>
  The loop over \<^verbatim>\<open>entryPoints\<close> (lines 508 to 542): \<open>Inr (Some (r, pkg'))\<close> is the
  \<^verbatim>\<open>return\<close> of line 540 after the cache was written, \<open>Inr None\<close> the end of the loop.
\<close>

fun entryPoints_loop ::
  "fs_resolver \<Rightarrow> env \<Rightarrow> string \<Rightarrow> PackageData \<Rightarrow> InternalResolveOptions \<Rightarrow> string list
     \<Rightarrow> resolve_error + (string \<times> PackageData) option" where
  "entryPoints_loop fsResolve env postfix pkg options [] = Inr None"
| "entryPoints_loop fsResolve env postfix pkg options (entry # entries) =
     (let (entry', skipPackageJson) = entryCandidate env (pkg_data pkg) options entry;
          entryPointPath = path_join env (pkg_dir pkg) entry'
      in case fsResolve entryPointPath True skipPackageJson of
           Inl e \<Rightarrow> Inl e
         | Inr resolvedEntryPoint \<Rightarrow>
             (case resolvedEntryPoint of
                None \<Rightarrow> entryPoints_loop fsResolve env postfix pkg options entries
              | Some r \<Rightarrow>
                  if r = [] then entryPoints_loop fsResolve env postfix pkg options entries
                  else Inr (Some (r @ postfix, setResolvedCache pkg ''.'' r))))"

text \<open>The \<^verbatim>\<open>try\<close> block of \<^verbatim>\<open>resolvePackageEntry\<close> (lines 477 to 542).\<close>

definition resolvePackageEntry_try ::
  "fs_resolver \<Rightarrow> env \<Rightarrow> string \<Rightarrow> PackageData \<Rightarrow> InternalResolveOptions
     \<Rightarrow> resolve_error + (string \<times> PackageData) option" where
  "resolvePackageEntry_try fsResolve env postfix pkg options =
     (let dir = pkg_dir pkg; data = pkg_data pkg
      in case
           (if exports_truthy (data_exports data)
            then resolveExportsOrImports env data ''.'' options Exports
            else Inr None)
         of
           Inl e \<Rightarrow> Inl e
         | Inr exported \<Rightarrow>
             (case
                (if \<not> truthy exported
                 then mainFields_loop fsResolve env dir data options (opt_mainFields options)
                        exported
                 else Inr exported)
              of
                Inl e \<Rightarrow> Inl e
              | Inr found \<Rightarrow>
                  (let entryPoint = (if truthy found then found else data_main data);
                       entryPoints =
                         (case entryPoint of
                            None \<Rightarrow> [''index.js'', ''index.json'', ''index.node'']
                          | Some e \<Rightarrow>
                              if e = [] then [''index.js'', ''index.json'', ''index.node'']
                              else [e])
                   in entryPoints_loop fsResolve env postfix pkg options entryPoints)))"

text \<open>
  The candidates of \<^verbatim>\<open>resolvePackageEntry\<close> (lines 477 to 506), which is the value of
  \<^verbatim>\<open>entryPoints\<close>: the target of the export map for the root; else what the main
  fields and the browser heuristic give; else \<^verbatim>\<open>main\<close>; else the three index files.
\<close>

definition resolvePackageEntry_entryPoints ::
  "fs_resolver \<Rightarrow> env \<Rightarrow> PackageData \<Rightarrow> InternalResolveOptions
     \<Rightarrow> resolve_error + string list" where
  "resolvePackageEntry_entryPoints fsResolve env pkg options =
     (let dir = pkg_dir pkg; data = pkg_data pkg
      in case
           (if exports_truthy (data_exports data)
            then resolveExportsOrImports env data ''.'' options Exports
            else Inr None)
         of
           Inl e \<Rightarrow> Inl e
         | Inr exported \<Rightarrow>
             (case
                (if \<not> truthy exported
                 then mainFields_loop fsResolve env dir data options (opt_mainFields options)
                        exported
                 else Inr exported)
              of
                Inl e \<Rightarrow> Inl e
              | Inr found \<Rightarrow>
                  (let entryPoint = (if truthy found then found else data_main data)
                   in Inr (case entryPoint of
                             None \<Rightarrow> [''index.js'', ''index.json'', ''index.node'']
                           | Some e \<Rightarrow>
                               if e = [] then [''index.js'', ''index.json'', ''index.node'']
                               else [e]))))"

text \<open>
  One turn of the loop over \<^verbatim>\<open>entryPoints\<close> up to the call of \<^verbatim>\<open>tryFsResolve\<close> (lines
  509 to 532): the attempt to resolve one candidate on the file system.
\<close>

definition resolvePackageEntry_attempt ::
  "fs_resolver \<Rightarrow> env \<Rightarrow> PackageData \<Rightarrow> InternalResolveOptions \<Rightarrow> string
     \<Rightarrow> resolve_error + string option" where
  "resolvePackageEntry_attempt fsResolve env pkg options entry =
     (let (entry', skipPackageJson) = entryCandidate env (pkg_data pkg) options entry;
          entryPointPath = path_join env (pkg_dir pkg) entry'
      in fsResolve entryPointPath True skipPackageJson)"

text \<open>
  The body of \<^verbatim>\<open>resolvePackageEntry\<close>. The declared return type is
  \<^verbatim>\<open>string | undefined\<close>, hence the option; the descriptor is returned as well, with
  the cache as the call left it.
\<close>

definition resolvePackageEntry_body ::
  "fs_resolver \<Rightarrow> env \<Rightarrow> string \<Rightarrow> PackageData \<Rightarrow> InternalResolveOptions
     \<Rightarrow> resolve_error + (string option \<times> PackageData)" where
  "resolvePackageEntry_body fsResolve env ident pkg options =
     (let (idWithoutPostfix, postfix) = splitFileAndPostfix ident;
          cached = getResolvedCache pkg ''.''
      in case withPostfix cached postfix of
           Some hit \<Rightarrow> Inr (Some hit, pkg)
         | None \<Rightarrow>
             (case resolvePackageEntry_try fsResolve env postfix pkg options of
                Inl e \<Rightarrow> Inl (packageEntryFailure ident (Some (error_message e)))
              | Inr (Some (resolved, pkg')) \<Rightarrow> Inr (Some resolved, pkg')
              | Inr None \<Rightarrow> Inl (packageEntryFailure ident None)))"

text \<open>
  The three functions. The first argument is the number of nested package entries
  that the stack of the engine still has room for: the call of
  \<^verbatim>\<open>resolvePackageEntry\<close> that finds none raises the engine's \<^verbatim>\<open>RangeError\<close>, which
  the \<^verbatim>\<open>catch\<close> clauses of the code see like any other error.
\<close>

fun tryFsResolve ::
      "nat \<Rightarrow> env \<Rightarrow> string \<Rightarrow> InternalResolveOptions \<Rightarrow> bool \<Rightarrow> bool
         \<Rightarrow> resolve_error + string option"
  and tryCleanFsResolve ::
      "nat \<Rightarrow> env \<Rightarrow> string \<Rightarrow> InternalResolveOptions \<Rightarrow> bool \<Rightarrow> bool
         \<Rightarrow> resolve_error + string option"
  and resolvePackageEntry ::
      "nat \<Rightarrow> env \<Rightarrow> string \<Rightarrow> PackageData \<Rightarrow> InternalResolveOptions
         \<Rightarrow> resolve_error + (string option \<times> PackageData)"
where
  "tryFsResolve depth env fsPath options tryIndex skipPackageJson =
     tryFsResolve_body
       (\<lambda>file. tryCleanFsResolve depth env file options tryIndex skipPackageJson)
       env fsPath"
| "tryCleanFsResolve 0 env file options tryIndex skipPackageJson =
     tryCleanFsResolve_body (\<lambda>dirPath pkg. Inl CallStackExceeded)
       env file options tryIndex skipPackageJson"
| "tryCleanFsResolve (Suc depth) env file options tryIndex skipPackageJson =
     tryCleanFsResolve_body (\<lambda>dirPath pkg. resolvePackageEntry depth env dirPath pkg options)
       env file options tryIndex skipPackageJson"
| "resolvePackageEntry depth env ident pkg options =
     resolvePackageEntry_body
       (\<lambda>fsPath tryIndex skipPackageJson.
          tryFsResolve depth env fsPath options tryIndex skipPackageJson)
       env ident pkg options"

declare tryFsResolve.simps [simp del]
declare tryCleanFsResolve.simps [simp del]
declare resolvePackageEntry.simps [simp del]

section \<open>Deep imports\<close>

text \<open>
  The message of the error thrown at lines 634 to 637. The template prints
  \<^verbatim>\<open>relativeId\<close>, which is falsy at that point: \<^verbatim>\<open>undefined\<close> or the empty string.
\<close>

definition subpathNotExported :: "env \<Rightarrow> string option \<Rightarrow> string \<Rightarrow> resolve_error" where
  "subpathNotExported env relativeId dir =
     SubpathNotExported
       (''Package subpath ''
        @ [CHR 0x27] @ (case relativeId of None \<Rightarrow> ''undefined'' | Some r \<Rightarrow> r) @ [CHR 0x27]
        @ '' is not defined by \"exports\" in ''
        @ path_join env dir ''package.json'' @ ''.'')"

text \<open>
  Lines 653 to 666 of \<^verbatim>\<open>resolveDeepImport\<close>: the relative id is joined to the
  package directory and resolved on the file system.
\<close>

definition resolveDeepImport_fs ::
  "fs_resolver \<Rightarrow> env \<Rightarrow> string \<Rightarrow> PackageData \<Rightarrow> string option
     \<Rightarrow> resolve_error + (string option \<times> PackageData)" where
  "resolveDeepImport_fs fsResolve env ident pkg relativeId =
     (case relativeId of
        None \<Rightarrow> Inr (None, pkg)
      | Some rel \<Rightarrow>
          if rel = [] then Inr (None, pkg)
          else
            (case fsResolve (path_join env (pkg_dir pkg) rel)
                    (\<not> exports_truthy (data_exports (pkg_data pkg))) False of
               Inl e \<Rightarrow> Inl e
             | Inr None \<Rightarrow> Inr (None, pkg)
             | Inr (Some resolved) \<Rightarrow>
                 if resolved = [] then Inr (None, pkg)
                 else Inr (Some resolved, setResolvedCache pkg ident resolved)))"

text \<open>
  Lines 613 to 651 of \<^verbatim>\<open>resolveDeepImport\<close>: the relative id after the export map or
  the browser table was consulted. The result is the value of \<^verbatim>\<open>relativeId\<close> at line
  653, or the early return of the browser-external id (line 649), or the throw of
  line 634. \<^verbatim>\<open>isObject(exportsField) && !Array.isArray(exportsField)\<close> holds of
  \<open>ExportsObject\<close> only.
\<close>

datatype deep_target = BrowserExternal | RelativeId "string option"

definition resolveDeepImport_relativeId ::
  "env \<Rightarrow> string \<Rightarrow> PackageData \<Rightarrow> InternalResolveOptions \<Rightarrow> resolve_error + deep_target" where
  "resolveDeepImport_relativeId env ident pkg options =
     (let dir = pkg_dir pkg;
          data = pkg_data pkg;
          exportsField = data_exports data;
          browserField = data_browser data
      in if exports_truthy exportsField then
           (case
              (case exportsField of
                 Some (ExportsObject m) \<Rightarrow>
                   (let (file, postfix) = splitFileAndPostfix ident
                    in case resolveExportsOrImports env data file options Exports of
                         Inl e \<Rightarrow> Inl e
                       | Inr None \<Rightarrow> Inr None
                       | Inr (Some exportsId) \<Rightarrow> Inr (Some (exportsId @ postfix)))
               | _ \<Rightarrow> Inr None)
            of
              Inl e \<Rightarrow> Inl e
            | Inr relativeId \<Rightarrow>
                if \<not> truthy relativeId then Inl (subpathNotExported env relativeId dir)
                else Inr (RelativeId relativeId))
         else
           (case browserField of
              Some (BrowserObject m) \<Rightarrow>
                if ''browser'' \<in> set (opt_mainFields options) then
                  (let (file, postfix) = splitFileAndPostfix ident
                   in case mapWithBrowserField (path_posix_normalize env) file m of
                        Some (BrowserPath mapped) \<Rightarrow>
                          if mapped \<noteq> [] then Inr (RelativeId (Some (mapped @ postfix)))
                          else Inr (RelativeId (Some ident))
                      | Some BrowserFalse \<Rightarrow> Inr BrowserExternal
                      | None \<Rightarrow> Inr (RelativeId (Some ident)))
                else Inr (RelativeId (Some ident))
            | _ \<Rightarrow> Inr (RelativeId (Some ident))))"

text \<open>\<^verbatim>\<open>resolveDeepImport\<close> (lines 603 to 667).\<close>

definition resolveDeepImport ::
  "nat \<Rightarrow> env \<Rightarrow> string \<Rightarrow> PackageData \<Rightarrow> InternalResolveOptions
     \<Rightarrow> resolve_error + (string option \<times> PackageData)" where
  "resolveDeepImport depth env ident pkg options =
     (let fsResolve =
            (\<lambda>fsPath tryIndex skipPackageJson.
               tryFsResolve depth env fsPath options tryIndex skipPackageJson);
          cache = getResolvedCache pkg ident
      in if truthy cache then Inr (cache, pkg)
         else
           (case resolveDeepImport_relativeId env ident pkg options of
              Inl e \<Rightarrow> Inl e
            | Inr BrowserExternal \<Rightarrow>
                Inr (Some browserExternalId, setResolvedCache pkg ident browserExternalId)
            | Inr (RelativeId relativeId) \<Rightarrow>
                resolveDeepImport_fs fsResolve env ident pkg relativeId))"

section \<open>Bare specifiers\<close>

text \<open>
  \<^verbatim>\<open>PartialResolvedId\<close>, with the three properties that \<^verbatim>\<open>tryNodeResolve\<close> sets.
\<close>

record PartialResolvedId =
  resolved_id :: string
  resolved_external :: "bool option"
  resolved_moduleSideEffects :: "side_effects option"

text \<open>
  The dependency optimizer and the externalization policy, as far as
  \<^verbatim>\<open>tryNodeResolve\<close> reads them. \<open>dep_isOptimizable\<close> is \<^verbatim>\<open>isOptimizable\<close> with the
  options of the optimizer, \<open>dep_optimizedDepId\<close> is \<^verbatim>\<open>registerMissingImport\<close>
  followed by \<^verbatim>\<open>getOptimizedDepId\<close>.
\<close>

record DepsOptimizer =
  dep_noDiscovery :: bool
  dep_exclude :: "string list option"
  dep_browserHash :: string
  dep_isOptimizable :: "string \<Rightarrow> bool"
  dep_optimizedDepId :: "string \<Rightarrow> string \<Rightarrow> string"

record policy =
  canExternalizeFile :: "string \<Rightarrow> bool"
  injectQuery :: "string \<Rightarrow> string \<Rightarrow> string"
  SPECIAL_QUERY_RE_test :: "string \<Rightarrow> bool"

text \<open>\<^verbatim>\<open>pkgId\<close> (line 320).\<close>

definition tryNodeResolve_pkgId :: "env \<Rightarrow> string \<Rightarrow> string" where
  "tryNodeResolve_pkgId env ident =
     (case deepImportRE_exec env ident of Some captured \<Rightarrow> captured | None \<Rightarrow> cleanUrl ident)"

text \<open>\<^verbatim>\<open>basedir\<close> (lines 322 to 336).\<close>

definition tryNodeResolve_basedir ::
  "env \<Rightarrow> string \<Rightarrow> string option \<Rightarrow> InternalResolveOptions \<Rightarrow> string" where
  "tryNodeResolve_basedir env ident importer options =
     (let pkgId = tryNodeResolve_pkgId env ident
      in if pkgId \<in> set (opt_dedupe options) then opt_root options
         else
           (case importer of
              None \<Rightarrow> opt_root options
            | Some imp \<Rightarrow>
                if imp \<noteq> [] \<and> path_isAbsolute env imp
                   \<and> (endsWith imp ''*'' \<or> fs_existsSync env (cleanUrl imp))
                then path_dirname env imp
                else opt_root options))"

text \<open>\<^verbatim>\<open>selfPkg\<close> (lines 340 to 348); \<^verbatim>\<open>null\<close> is \<open>None\<close>.\<close>

definition tryNodeResolve_selfPkg ::
  "env \<Rightarrow> string \<Rightarrow> string option \<Rightarrow> InternalResolveOptions \<Rightarrow> PackageData option" where
  "tryNodeResolve_selfPkg env ident importer options =
     (let pkgId = tryNodeResolve_pkgId env ident;
          basedir = tryNodeResolve_basedir env ident importer options
      in if \<not> isBuiltin env (opt_builtins options) ident
            \<and> CHR 0x00 \<notin> set ident
            \<and> bareImportRE_test env ident
         then
           (case findNearestPackageData env basedir of
              None \<Rightarrow> None
            | Some selfPackageData \<Rightarrow>
                if exports_truthy (data_exports (pkg_data selfPackageData))
                   \<and> data_name (pkg_data selfPackageData) = pkgId
                then Some selfPackageData
                else None)
         else None)"

text \<open>\<^verbatim>\<open>pkg\<close> (lines 350 to 352): the lookup is made only when \<^verbatim>\<open>selfPkg\<close> is \<^verbatim>\<open>null\<close>.\<close>

definition tryNodeResolve_pkg ::
  "env \<Rightarrow> string \<Rightarrow> string option \<Rightarrow> InternalResolveOptions \<Rightarrow> PackageData option" where
  "tryNodeResolve_pkg env ident importer options =
     (case tryNodeResolve_selfPkg env ident importer options of
        Some selfPkg \<Rightarrow> Some selfPkg
      | None \<Rightarrow>
          resolvePackageData env (tryNodeResolve_pkgId env ident)
            (tryNodeResolve_basedir env ident importer options)
            (opt_preserveSymlinks options))"

text \<open>
  Lines 354 to 376, when no package was found: the optional peer dependency.
  \<^verbatim>\<open>mainPkg.peerDependencies?.[pkgName]\<close> and
  \<^verbatim>\<open>mainPkg.peerDependenciesMeta?.[pkgName]?.optional\<close> are tested for truthiness.
\<close>

definition peerDependency_truthy :: "manifest \<Rightarrow> string \<Rightarrow> bool" where
  "peerDependency_truthy mainPkg pkgName =
     (case data_peerDependencies mainPkg of
        None \<Rightarrow> False
      | Some deps \<Rightarrow> truthy (map_of deps pkgName))"

definition peerDependencyOptional_truthy :: "manifest \<Rightarrow> string \<Rightarrow> bool" where
  "peerDependencyOptional_truthy mainPkg pkgName =
     (case data_peerDependenciesMeta mainPkg of
        None \<Rightarrow> False
      | Some metas \<Rightarrow>
          (case map_of metas pkgName of
             None \<Rightarrow> False
           | Some meta \<Rightarrow> meta_optional meta = Some True))"

definition tryNodeResolve_noPackage ::
  "env \<Rightarrow> string \<Rightarrow> string option \<Rightarrow> InternalResolveOptions \<Rightarrow> PartialResolvedId option" where
  "tryNodeResolve_noPackage env ident importer options =
     (let basedir = tryNodeResolve_basedir env ident importer options
      in if basedir \<noteq> opt_root options
            \<and> \<not> isBuiltin env (opt_builtins options) ident
            \<and> CHR 0x00 \<notin> set ident
            \<and> bareImportRE_test env ident
         then
           (case findNearestMainPackageData env basedir of
              None \<Rightarrow> None
            | Some mainPackageData \<Rightarrow>
                (let mainPkg = pkg_data mainPackageData
                 in case getNpmPackageName env ident of
                      None \<Rightarrow> None
                    | Some pkgName \<Rightarrow>
                        if peerDependency_truthy mainPkg pkgName
                           \<and> peerDependencyOptional_truthy mainPkg pkgName
                        then Some \<lparr>resolved_id =
                                      optionalPeerDepId @ '':'' @ ident @ '':'' @ data_name mainPkg,
                                    resolved_external = None,
                                    resolved_moduleSideEffects = None\<rparr>
                        else None))
         else None)"

text \<open>\<^verbatim>\<open>s.indexOf(t)\<close> for a string needle.\<close>

fun indexOfString :: "string \<Rightarrow> string \<Rightarrow> int" where
  "indexOfString [] t = (if t = [] then 0 else - 1)"
| "indexOfString (x # xs) t =
     (if take (length t) (x # xs) = t then 0
      else (let i = indexOfString xs t in if i < 0 then - 1 else i + 1))"

text \<open>\<^verbatim>\<open>processResult\<close> (lines 387 to 412).\<close>

definition processResult ::
  "env \<Rightarrow> policy \<Rightarrow> string \<Rightarrow> PackageData \<Rightarrow> bool \<Rightarrow> PartialResolvedId \<Rightarrow> PartialResolvedId" where
  "processResult env pol ident pkg externalize resolved =
     (if \<not> externalize then resolved
      else if \<not> canExternalizeFile pol (resolved_id resolved) then resolved
      else
        (let resolvedId =
               (if deepImportRE_exec env ident \<noteq> None
                   \<and> \<not> exports_truthy (data_exports (pkg_data pkg))
                   \<and> path_extname env ident \<noteq> path_extname env (resolved_id resolved)
                then
                  (let index = indexOfString (resolved_id resolved) ident
                   in if index > - 1 then drop (nat index) (resolved_id resolved) else ident)
                else ident)
         in resolved\<lparr>resolved_id := resolvedId, resolved_external := Some True\<rparr>))"

text \<open>
  Lines 414 to 461: what \<^verbatim>\<open>tryNodeResolve\<close> makes of the resolved path.
\<close>

definition tryNodeResolve_result ::
  "env \<Rightarrow> policy \<Rightarrow> string \<Rightarrow> string option \<Rightarrow> InternalResolveOptions \<Rightarrow> DepsOptimizer option
     \<Rightarrow> bool \<Rightarrow> PackageData \<Rightarrow> string \<Rightarrow> PartialResolvedId" where
  "tryNodeResolve_result env pol ident importer options depsOptimizer externalize pkg resolved =
     (let plain = (\<lambda>r. \<lparr>resolved_id = r, resolved_external = None,
                        resolved_moduleSideEffects = None\<rparr>)
      in if opt_idOnly options \<noteq> Some True
            \<and> ((opt_scan options \<noteq> Some True \<and> opt_isBuild options) \<or> externalize)
         then processResult env pol ident pkg externalize
                \<lparr>resolved_id = resolved, resolved_external = None,
                 resolved_moduleSideEffects = Some (pkg_hasSideEffects pkg resolved)\<rparr>
         else
           (case depsOptimizer of
              None \<Rightarrow> plain resolved
            | Some optimizer \<Rightarrow>
                if \<not> isInNodeModules env resolved \<or> opt_scan options = Some True
                then plain resolved
                else
                  (let isJsType = dep_isOptimizable optimizer resolved;
                       pkgId = tryNodeResolve_pkgId env ident;
                       skipOptimization =
                         (dep_noDiscovery optimizer
                          \<or> \<not> isJsType
                          \<or> (case importer of
                                None \<Rightarrow> False
                              | Some imp \<Rightarrow> imp \<noteq> [] \<and> isInNodeModules env imp)
                          \<or> (case dep_exclude optimizer of
                                None \<Rightarrow> False
                              | Some exclude \<Rightarrow> pkgId \<in> set exclude \<or> ident \<in> set exclude)
                          \<or> SPECIAL_QUERY_RE_test pol resolved)
                   in if skipOptimization then
                        (if dep_browserHash optimizer \<noteq> [] \<and> isJsType
                         then plain (injectQuery pol resolved
                                       (''v='' @ dep_browserHash optimizer))
                         else plain resolved)
                      else plain (dep_optimizedDepId optimizer ident resolved))))"

text \<open>
  \<^verbatim>\<open>tryNodeResolve\<close> (lines 307 to 462). The descriptor is returned with the result
  when a package was found, with the cache as the call left it.
\<close>

definition tryNodeResolve ::
  "nat \<Rightarrow> env \<Rightarrow> policy \<Rightarrow> string \<Rightarrow> string option \<Rightarrow> InternalResolveOptions
     \<Rightarrow> DepsOptimizer option \<Rightarrow> bool
     \<Rightarrow> resolve_error + (PartialResolvedId option \<times> PackageData option)" where
  "tryNodeResolve depth env pol ident importer options depsOptimizer externalize =
     (let deepMatch = deepImportRE_exec env ident;
          pkgId = tryNodeResolve_pkgId env ident
      in case tryNodeResolve_pkg env ident importer options of
           None \<Rightarrow> Inr (tryNodeResolve_noPackage env ident importer options, None)
         | Some pkg \<Rightarrow>
             (case
                (if deepMatch \<noteq> None
                 then resolveDeepImport depth env (''.'' @ drop (length pkgId) ident) pkg options
                 else resolvePackageEntry depth env ident pkg options)
              of
                Inl e \<Rightarrow> Inl e
              | Inr (None, pkg') \<Rightarrow> Inr (None, Some pkg')
              | Inr (Some resolved, pkg') \<Rightarrow>
                  if resolved = [] then Inr (None, Some pkg')
                  else
                    Inr (Some (tryNodeResolve_result env pol ident importer options
                                 depsOptimizer externalize pkg resolved),
                         Some pkg')))"

section \<open>The claims in the words of the specification\<close>

text \<open>
  A key of the browser table matches a subpath when, both being normalised, the key
  equals the subpath, or equals it once a trailing \<^verbatim>\<open>.js\<close> is dropped from the key, or
  once a trailing \<^verbatim>\<open>/index.js\<close> is dropped from the key.
\<close>

definition browserKeyMatches :: "(string \<Rightarrow> string) \<Rightarrow> string \<Rightarrow> string \<Rightarrow> bool" where
  "browserKeyMatches normalizeFn subpath key \<longleftrightarrow>
     normalizeFn key = normalizeFn subpath
     \<or> normalizeFn key = normalizeFn subpath @ ''.js''
     \<or> normalizeFn key = normalizeFn subpath @ ''/index.js''"

section \<open>A concrete platform\<close>

text \<open>
  For concrete runs the collaborators are instantiated as follows. The file system
  is a table from paths to what \<^verbatim>\<open>stat\<close> reports; no path is a symbolic link, so the
  real path of a path is the path, and paths are normalised already. The path
  functions are the POSIX models above. The helpers of \<^verbatim>\<open>../utils\<close> follow the
  package manager's conventions: a path is in dependency storage when it mentions
  \<^verbatim>\<open>node_modules\<close>; a bare specifier starts with a word character or \<^verbatim>\<open>@\<close> and names
  no URL scheme; a deep import is \<^verbatim>\<open>name/...\<close> or \<^verbatim>\<open>@scope/name/...\<close>. The manifests are
  a table from the directory of a package to its descriptor: the nearest manifest of
  a directory is the one of the closest enclosing directory that has one, the
  nearest main manifest is the nearest one that has a name, and a package is looked
  up by name under \<^verbatim>\<open>node_modules\<close> of the base directory and of the directories above
  it.
\<close>

definition isWordChar :: "char \<Rightarrow> bool" where
  "isWordChar c \<longleftrightarrow>
     c \<in> set ''abcdefghijklmnopqrstuvwxyzABCDEFGHIJKLMNOPQRSTUVWXYZ0123456789_''"

definition node_isInNodeModules :: "string \<Rightarrow> bool" where
  "node_isInNodeModules p = includes_str p ''node_modules''"

definition node_bareImportRE_test :: "string \<Rightarrow> bool" where
  "node_bareImportRE_test s =
     (case s of
        [] \<Rightarrow> False
      | c # cs \<Rightarrow>
          (isWordChar c \<or> c = CHR ''@'')
          \<and> \<not> (take 1 cs = '':'' \<and> isWordChar c \<and> c \<noteq> CHR ''_'' \<and> c \<notin> set ''0123456789'')
          \<and> \<not> includes_str cs ''://'')"

definition node_deepImportRE_exec :: "string \<Rightarrow> string option" where
  "node_deepImportRE_exec s =
     (case s of
        [] \<Rightarrow> None
      | c # cs \<Rightarrow>
          if c \<noteq> CHR ''@'' then
            (if CHR ''/'' \<in> set cs then Some (c # takeWhile (\<lambda>x. x \<noteq> CHR ''/'') cs) else None)
          else
            (let scope = takeWhile (\<lambda>x. x \<noteq> CHR ''/'') cs;
                 rest = drop (length scope + 1) cs;
                 name = takeWhile (\<lambda>x. x \<noteq> CHR ''/'') rest
             in if scope \<noteq> [] \<and> name \<noteq> [] \<and> CHR ''/'' \<in> set rest
                then Some (c # scope @ ''/'' @ name)
                else None))"

definition node_getNpmPackageName :: "string \<Rightarrow> string option" where
  "node_getNpmPackageName importPath =
     (case splitOn CHR ''/'' importPath of
        [] \<Rightarrow> None
      | p0 # ps \<Rightarrow>
          if take 1 p0 = ''@'' then
            (case ps of
               [] \<Rightarrow> None
             | p1 # others \<Rightarrow> if p1 = [] then None else Some (p0 @ ''/'' @ p1))
          else Some p0)"

text \<open>The directories above a directory, the nearest first; \<open>n\<close> bounds the climb.\<close>

fun ancestors :: "nat \<Rightarrow> string \<Rightarrow> string list" where
  "ancestors 0 d = [d]"
| "ancestors (Suc n) d =
     (if posix_dirname d = d then [d] else d # ancestors n (posix_dirname d))"

definition node_findNearestPackageData ::
  "(string \<times> PackageData) list \<Rightarrow> string \<Rightarrow> PackageData option" where
  "node_findNearestPackageData manifests basedir =
     (case List.find (\<lambda>d. map_of manifests d \<noteq> None) (ancestors (length basedir) basedir) of
        None \<Rightarrow> None
      | Some d \<Rightarrow> map_of manifests d)"

definition node_resolvePackageData ::
  "(string \<times> PackageData) list \<Rightarrow> string \<Rightarrow> string \<Rightarrow> bool \<Rightarrow> PackageData option" where
  "node_resolvePackageData manifests pkgName basedir preserveSymlinks =
     (case List.find (\<lambda>d. map_of manifests (posix_join d (''node_modules/'' @ pkgName)) \<noteq> None)
             (ancestors (length basedir) basedir) of
        None \<Rightarrow> None
      | Some d \<Rightarrow> map_of manifests (posix_join d (''node_modules/'' @ pkgName)))"

text \<open>
  The nearest main manifest: the nearest manifest that has a name. A manifest
  without a name is passed over, and the search goes on above its directory.
\<close>

definition node_findNearestMainPackageData ::
  "(string \<times> PackageData) list \<Rightarrow> string \<Rightarrow> PackageData option" where
  "node_findNearestMainPackageData manifests basedir =
     (case List.find
             (\<lambda>d. case map_of manifests d of
                    None \<Rightarrow> False
                  | Some pkg \<Rightarrow> data_name (pkg_data pkg) \<noteq> [])
             (ancestors (length basedir) basedir) of
        None \<Rightarrow> None
      | Some d \<Rightarrow> map_of manifests d)"

text \<open>
  The export-map library \<^verbatim>\<open>resolve.exports\<close>, version 2, whose function \<^verbatim>\<open>exports\<close> the
  resolver calls with \<^verbatim>\<open>unsafe: true\<close>. An association list stands for an object, its
  keys in the order in which the engine enumerates them. The library throws
  \<^verbatim>\<open>Missing "entry" specifier in "name" package\<close> when the map has no truthy target for
  the entry, and \<^verbatim>\<open>No known conditions for "entry" specifier in "name" package\<close> when the
  target has no branch for the conditions; neither error has a \<^verbatim>\<open>code\<close>.

  A key with a \<^verbatim>\<open>*\<close> is turned into a regular expression by the library, the text of
  the key around the \<^verbatim>\<open>*\<close> being the text of the expression: a \<^verbatim>\<open>.\<close> of the key stands for
  any character that ends no line. The keys are taken to hold no other character
  that a regular expression reads specially, and the part of a specifier that a \<^verbatim>\<open>*\<close>
  captures to hold no \<^verbatim>\<open>$\<close>.
\<close>

definition lib_throws :: "string \<Rightarrow> string \<Rightarrow> bool \<Rightarrow> thrown" where
  "lib_throws name entry condition =
     ((if condition then ''No known conditions for \"'' else ''Missing \"'')
        @ entry @ ''\" specifier in \"'' @ name @ ''\" package'', None)"

definition lib_toEntry :: "string \<Rightarrow> string \<Rightarrow> string" where
  "lib_toEntry name ident =
     (if name = ident \<or> ident = ''.'' then ''.''
      else
        (let root = name @ ''/'';
             bool = (take (length root) ident = root);
             output = (if bool then drop (length root) ident else ident)
         in if take 1 output = ''#'' then output
            else if take 2 output = ''./'' then output
            else ''./'' @ output))"

text \<open>With \<^verbatim>\<open>unsafe: true\<close> the conditions are \<^verbatim>\<open>default\<close> and the ones that were passed.\<close>

definition lib_conditions :: "string list \<Rightarrow> string list" where
  "lib_conditions conds = ''default'' # conds"

text \<open>
  \<^verbatim>\<open>loop(m, keys, result)\<close> with a \<^verbatim>\<open>result\<close> set: the strings found are added to the set,
  which keeps the order of insertion.
\<close>

fun lib_collect :: "string list \<Rightarrow> export_target \<Rightarrow> string list \<Rightarrow> string list"
  and lib_collect_array :: "string list \<Rightarrow> export_target list \<Rightarrow> string list \<Rightarrow> string list"
  and lib_collect_object ::
        "string list \<Rightarrow> (string \<times> export_target) list \<Rightarrow> string list \<Rightarrow> string list"
where
  "lib_collect keys (Target s) result =
     (if s = [] \<or> s \<in> set result then result else result @ [s])"
| "lib_collect keys TargetNull result = result"
| "lib_collect keys (Fallbacks ms) result = lib_collect_array keys ms result"
| "lib_collect keys (Conditional kvs) result = lib_collect_object keys kvs result"
| "lib_collect_array keys [] result = result"
| "lib_collect_array keys (m # ms) result =
     lib_collect_array keys ms (lib_collect keys m result)"
| "lib_collect_object keys [] result = result"
| "lib_collect_object keys ((idx, m) # kvs) result =
     (if idx \<in> set keys then lib_collect keys m result
      else lib_collect_object keys kvs result)"

text \<open>\<^verbatim>\<open>loop(m, keys)\<close>: the targets of \<open>m\<close> under the conditions, or nothing.\<close>

fun lib_loop :: "string list \<Rightarrow> export_target \<Rightarrow> string list option"
  and lib_loop_object :: "string list \<Rightarrow> (string \<times> export_target) list \<Rightarrow> string list option"
where
  "lib_loop keys (Target s) = (if s = [] then None else Some [s])"
| "lib_loop keys TargetNull = None"
| "lib_loop keys (Fallbacks ms) =
     (let arr = lib_collect_array keys ms [] in if arr = [] then None else Some arr)"
| "lib_loop keys (Conditional kvs) = lib_loop_object keys kvs"
| "lib_loop_object keys [] = None"
| "lib_loop_object keys ((idx, m) # kvs) =
     (if idx \<in> set keys then lib_loop keys m else lib_loop_object keys kvs)"

text \<open>\<^verbatim>\<open>key.indexOf('*', 1)\<close>, when it is found.\<close>

definition lib_star :: "string \<Rightarrow> nat option" where
  "lib_star key =
     (case key of
        [] \<Rightarrow> None
      | k # ks \<Rightarrow>
          if CHR ''*'' \<in> set ks
          then Some (Suc (length (takeWhile (\<lambda>c. c \<noteq> CHR ''*'') ks)))
          else None)"

definition lib_rx_char :: "char \<Rightarrow> char \<Rightarrow> bool" where
  "lib_rx_char p c \<longleftrightarrow>
     (if p = CHR ''.'' then c \<noteq> CHR 0x0A \<and> c \<noteq> CHR 0x0D else p = c)"

text \<open>
  \<^verbatim>\<open>RegExp('^' + pre + '(.*)' + suf + '$').exec(entry)\<close>: what the group captures.
\<close>

definition lib_match :: "string \<Rightarrow> string \<Rightarrow> string \<Rightarrow> string option" where
  "lib_match pre suf entry =
     (let n = length entry - length pre - length suf;
          captured = take n (drop (length pre) entry)
      in if length pre + length suf \<le> length entry
            \<and> list_all2 lib_rx_char pre (take (length pre) entry)
            \<and> list_all2 lib_rx_char suf (drop (length pre + n) entry)
            \<and> list_all (lib_rx_char CHR ''.'') captured
         then Some captured
         else None)"

text \<open>
  The loop of \<^verbatim>\<open>walk\<close> for the longest matching key; the state is \<^verbatim>\<open>longest\<close> and
  \<^verbatim>\<open>replace\<close>.
\<close>

fun lib_longest ::
  "string \<Rightarrow> string list \<Rightarrow> string option \<times> string \<Rightarrow> string option \<times> string" where
  "lib_longest entry [] state = state"
| "lib_longest entry (key # keys) (longest, replace) =
     lib_longest entry keys
       (if (case longest of None \<Rightarrow> False | Some l \<Rightarrow> l \<noteq> [] \<and> length key < length l)
        then (longest, replace)
        else if key \<noteq> [] \<and> last key = CHR ''/'' \<and> take (length key) entry = key
        then (Some key, drop (length key) entry)
        else if length key > 1 then
          (case lib_star key of
             None \<Rightarrow> (longest, replace)
           | Some tmp \<Rightarrow>
               (case lib_match (take tmp key) (drop (Suc tmp) key) entry of
                  None \<Rightarrow> (longest, replace)
                | Some captured \<Rightarrow>
                    if captured \<noteq> [] then (Some key, captured) else (longest, replace)))
        else (longest, replace))"

definition lib_injects :: "string list \<Rightarrow> string \<Rightarrow> string list" where
  "lib_injects items v =
     map (\<lambda>tmp. if CHR ''*'' \<in> set tmp
                then concat (map (\<lambda>c. if c = CHR ''*'' then v else [c]) tmp)
                else if tmp \<noteq> [] \<and> last tmp = CHR ''/'' then tmp @ v
                else tmp)
       items"

fun lib_truthy :: "export_target \<Rightarrow> bool" where
  "lib_truthy (Target s) = (s \<noteq> [])"
| "lib_truthy TargetNull = False"
| "lib_truthy (Fallbacks ms) = True"
| "lib_truthy (Conditional kvs) = True"

definition lib_walk ::
  "string \<Rightarrow> (string \<times> export_target) list \<Rightarrow> string \<Rightarrow> string list
     \<Rightarrow> thrown + string list" where
  "lib_walk name mapping input conds =
     (let entry = lib_toEntry name input;
          c = lib_conditions conds;
          (m, replace) =
            (case map_of mapping entry of
               Some m \<Rightarrow> (Some m, [])
             | None \<Rightarrow>
                 (let (longest, replace) = lib_longest entry (map fst mapping) (None, [])
                  in (case longest of None \<Rightarrow> None | Some key \<Rightarrow> map_of mapping key, replace)))
      in case m of
           None \<Rightarrow> Inl (lib_throws name entry False)
         | Some m \<Rightarrow>
             if \<not> lib_truthy m then Inl (lib_throws name entry False)
             else
               (case lib_loop c m of
                  None \<Rightarrow> Inl (lib_throws name entry True)
                | Some v \<Rightarrow> Inr (if replace \<noteq> [] then lib_injects v replace else v)))"

text \<open>
  \<^verbatim>\<open>exports(pkg, input, options)\<close>: a string is the target of the root, and so is a
  field whose first key does not start with a dot, an array among them.
\<close>

definition node_resolve_exports ::
  "manifest \<Rightarrow> string \<Rightarrow> string list \<Rightarrow> thrown + string list option" where
  "node_resolve_exports pkg key conditions =
     (let input = (if key = [] then ''.'' else key);
          walk = (\<lambda>mapping. map_sum id Some (lib_walk (data_name pkg) mapping input conditions))
      in case data_exports pkg of
           None \<Rightarrow> Inr None
         | Some (ExportsString s) \<Rightarrow>
             if s = [] then Inr None else walk [(''.'', Target s)]
         | Some (ExportsArray a) \<Rightarrow>
             walk (if a = [] then [] else [(''.'', Fallbacks (map Target a))])
         | Some (ExportsObject kvs) \<Rightarrow>
             walk (case kvs of
                     [] \<Rightarrow> []
                   | (k, v) # others \<Rightarrow>
                       if take 1 k \<noteq> ''.'' then [(''.'', Conditional kvs)] else kvs))"

definition node_env :: "(string \<times> stats) list \<Rightarrow> (string \<times> PackageData) list \<Rightarrow> env" where
  "node_env files manifests =
     \<lparr> tryStatSync = map_of files,
       fs_existsSync = (\<lambda>p. map_of files p \<noteq> None),
       fs_readFileSync = (\<lambda>p. if map_of files p = Some IsFile then Inr []
                               else Inl (''no such file or directory'', Some ''ENOENT'')),
       safeRealpathSync = (\<lambda>p. p),
       normalizePath = (\<lambda>p. p),
       path_dirname = posix_dirname,
       path_extname = posix_extname,
       path_basename = posix_basename,
       path_join = posix_join,
       path_posix_normalize = posix_normalize,
       path_isAbsolute = posix_isAbsolute,
       isInNodeModules = node_isInNodeModules,
       hasESMSyntax = (\<lambda>content. False),
       loadPackageData =
         (\<lambda>pkgPath. case map_of manifests (posix_dirname pkgPath) of
                       Some pkg \<Rightarrow> Inr pkg
                     | None \<Rightarrow> Inl (''no such file or directory'', Some ''ENOENT'')),
       resolve_exports = node_resolve_exports,
       resolve_imports = (\<lambda>pkg key conditions. Inr None),
       DEV_PROD_CONDITION = ''development|production'',
       deepImportRE_exec = node_deepImportRE_exec,
       bareImportRE_test = node_bareImportRE_test,
       isBuiltin = (\<lambda>builtins ident. ident \<in> set builtins),
       getNpmPackageName = node_getNpmPackageName,
       findNearestPackageData = node_findNearestPackageData manifests,
       findNearestMainPackageData = node_findNearestMainPackageData manifests,
       resolvePackageData = node_resolvePackageData manifests \<rparr>"

text \<open>Options with the documented defaults of the resolver, for a project at \<^verbatim>\<open>/app\<close>.\<close>

definition default_options :: InternalResolveOptions where
  "default_options =
     \<lparr> opt_root = ''/app'',
       opt_dedupe = [],
       opt_isBuild = False,
       opt_isProduction = False,
       opt_isRequire = None,
       opt_preserveSymlinks = False,
       opt_mainFields = [''browser'', ''module'', ''jsnext:main'', ''jsnext''],
       opt_conditions = [''module'', ''browser'', ''development|production''],
       opt_extensions = [''.mjs'', ''.js'', ''.mts'', ''.ts'', ''.jsx'', ''.tsx'', ''.json''],
       opt_builtins = [],
       opt_tryPrefix = None,
       opt_idOnly = None,
       opt_scan = None \<rparr>"

text \<open>
  A project directory that holds \<^verbatim>\<open>x.ts\<close> and \<^verbatim>\<open>x.js.js\<close> but no \<^verbatim>\<open>x.js\<close>.
\<close>

definition swap_files :: "(string \<times> stats) list" where
  "swap_files =
     [(''/app'', IsDirectory), (''/app/src'', IsDirectory),
      (''/app/src/x.ts'', IsFile), (''/app/src/x.js.js'', IsFile)]"

text \<open>
  A dependency that holds \<^verbatim>\<open>foo.js\<close> and a file whose name has a \<^verbatim>\<open>#\<close>,
  \<^verbatim>\<open>foo#bar.js\<close>.
\<close>

definition hash_files :: "(string \<times> stats) list" where
  "hash_files =
     [(''/app'', IsDirectory), (''/app/node_modules'', IsDirectory),
      (''/app/node_modules/p'', IsDirectory),
      (''/app/node_modules/p/foo.js'', IsFile),
      (''/app/node_modules/p/foo#bar.js'', IsFile),
      (''/app/src'', IsDirectory),
      (''/app/src/foo.js'', IsFile),
      (''/app/src/foo#bar.js'', IsFile)]"

text \<open>
  Reattaching a postfix to the result of a resolution: a path gets the postfix
  appended, and \<^verbatim>\<open>undefined\<close> stays \<^verbatim>\<open>undefined\<close>.
\<close>

fun reattach :: "string \<Rightarrow> string option \<Rightarrow> string option" where
  "reattach postfix None = None"
| "reattach postfix (Some resolved) = Some (resolved @ postfix)"

text \<open>
  A project at \<^verbatim>\<open>/app\<close> with four dependencies and one workspace package:
  \<^verbatim>\<open>plain\<close> has a main file and a further module; \<^verbatim>\<open>exp\<close> declares an export map
  that lists its root and \<^verbatim>\<open>./feature\<close>; \<^verbatim>\<open>br\<close> has an object-form browser field that
  maps its main file and \<^verbatim>\<open>./server.js\<close> to \<^verbatim>\<open>false\<close>; \<^verbatim>\<open>consumer\<close> lists \<^verbatim>\<open>bar\<close> as an
  optional peer dependency, and \<^verbatim>\<open>bar\<close> is not installed; the workspace package
  \<^verbatim>\<open>pkg\<close> declares an export map that lists \<^verbatim>\<open>./sub\<close>.
\<close>

definition empty_manifest :: manifest where
  "empty_manifest =
     \<lparr> data_name = [], data_main = None, data_module = None, data_browser = None,
       data_exports = None, data_peerDependencies = None,
       data_peerDependenciesMeta = None, data_field = (\<lambda>field. None) \<rparr>"

definition package_at :: "string \<Rightarrow> manifest \<Rightarrow> PackageData" where
  "package_at dir data =
     \<lparr> pkg_dir = dir, pkg_data = data, pkg_resolvedCache = (\<lambda>key. None),
       pkg_hasSideEffects = (\<lambda>resolved. SideEffectsNull) \<rparr>"

definition plain_pkg :: PackageData where
  "plain_pkg = package_at ''/app/node_modules/plain''
     (empty_manifest\<lparr>data_name := ''plain'', data_main := Some ''index.js''\<rparr>)"

definition exp_pkg :: PackageData where
  "exp_pkg = package_at ''/app/node_modules/exp''
     (empty_manifest\<lparr>data_name := ''exp'',
        data_exports := Some (ExportsObject
          [(''.'', Target ''./dist/index.js''), (''./feature'', Target ''./dist/feature.js'')])\<rparr>)"

definition br_pkg :: PackageData where
  "br_pkg = package_at ''/app/node_modules/br''
     (empty_manifest\<lparr>data_name := ''br'', data_main := Some ''index.js'',
        data_browser := Some (BrowserObject
          [(''./index.js'', BrowserFalse), (''./server.js'', BrowserFalse)])\<rparr>)"

definition consumer_pkg :: PackageData where
  "consumer_pkg = package_at ''/app/node_modules/consumer''
     (empty_manifest\<lparr>data_name := ''consumer'', data_main := Some ''index.js'',
        data_peerDependencies := Some [(''bar'', ''*'')],
        data_peerDependenciesMeta := Some [(''bar'', \<lparr>meta_optional = Some True\<rparr>)]\<rparr>)"

definition self_pkg :: PackageData where
  "self_pkg = package_at ''/app/packages/pkg''
     (empty_manifest\<lparr>data_name := ''pkg'',
        data_exports := Some (ExportsObject [(''./sub'', Target ''./src/sub.js'')])\<rparr>)"

definition project_manifests :: "(string \<times> PackageData) list" where
  "project_manifests =
     [(''/app/node_modules/plain'', plain_pkg),
      (''/app/node_modules/exp'', exp_pkg),
      (''/app/node_modules/br'', br_pkg),
      (''/app/node_modules/consumer'', consumer_pkg),
      (''/app/packages/pkg'', self_pkg)]"

definition project_files :: "(string \<times> stats) list" where
  "project_files =
     [(''/app'', IsDirectory), (''/app/node_modules'', IsDirectory),
      (''/app/node_modules/plain'', IsDirectory),
      (''/app/node_modules/plain/package.json'', IsFile),
      (''/app/node_modules/plain/index.js'', IsFile),
      (''/app/node_modules/plain/sub.js'', IsFile),
      (''/app/node_modules/exp'', IsDirectory),
      (''/app/node_modules/exp/package.json'', IsFile),
      (''/app/node_modules/exp/dist'', IsDirectory),
      (''/app/node_modules/exp/dist/index.js'', IsFile),
      (''/app/node_modules/exp/dist/feature.js'', IsFile),
      (''/app/node_modules/exp/dist/missing.js'', IsFile),
      (''/app/node_modules/br'', IsDirectory),
      (''/app/node_modules/br/package.json'', IsFile),
      (''/app/node_modules/br/index.js'', IsFile),
      (''/app/node_modules/br/server.js'', IsFile),
      (''/app/node_modules/consumer'', IsDirectory),
      (''/app/node_modules/consumer/package.json'', IsFile),
      (''/app/node_modules/consumer/index.js'', IsFile),
      (''/app/packages'', IsDirectory),
      (''/app/packages/pkg'', IsDirectory),
      (''/app/packages/pkg/package.json'', IsFile),
      (''/app/packages/pkg/src'', IsDirectory),
      (''/app/packages/pkg/src/main.js'', IsFile),
      (''/app/packages/pkg/src/sub.js'', IsFile),
      (''/app/src'', IsDirectory),
      (''/app/src/main.js'', IsFile)]"

definition project_env :: env where
  "project_env = node_env project_files project_manifests"

definition no_policy :: policy where
  "no_policy =
     \<lparr> canExternalizeFile = (\<lambda>resolved. False),
       injectQuery = (\<lambda>url query. url @ ''?'' @ query),
       SPECIAL_QUERY_RE_test = (\<lambda>url. False) \<rparr>"

text \<open>
  Three dependencies of another project: the \<^verbatim>\<open>exports\<close> field of \<^verbatim>\<open>arr\<close> is an array;
  the export map of \<^verbatim>\<open>cond\<close> has a branch for the \<^verbatim>\<open>worker\<close> condition only; the main
  file that \<^verbatim>\<open>broken\<close> names does not exist.
\<close>

definition arr_pkg :: PackageData where
  "arr_pkg = package_at ''/app/node_modules/arr''
     (empty_manifest\<lparr>data_name := ''arr'',
        data_exports := Some (ExportsArray [''./index.js''])\<rparr>)"

definition cond_pkg :: PackageData where
  "cond_pkg = package_at ''/app/node_modules/cond''
     (empty_manifest\<lparr>data_name := ''cond'',
        data_exports := Some (ExportsObject
          [(''.'', Conditional [(''worker'', Target ''./worker.js'')])])\<rparr>)"

definition broken_pkg :: PackageData where
  "broken_pkg = package_at ''/app/node_modules/broken''
     (empty_manifest\<lparr>data_name := ''broken'', data_main := Some ''missing.js''\<rparr>)"

definition faulty_env :: env where
  "faulty_env =
     node_env
       [(''/app'', IsDirectory), (''/app/node_modules'', IsDirectory),
        (''/app/node_modules/arr'', IsDirectory),
        (''/app/node_modules/arr/package.json'', IsFile),
        (''/app/node_modules/arr/index.js'', IsFile),
        (''/app/node_modules/arr/sub.js'', IsFile),
        (''/app/node_modules/cond'', IsDirectory),
        (''/app/node_modules/cond/package.json'', IsFile),
        (''/app/node_modules/cond/worker.js'', IsFile),
        (''/app/node_modules/cond/index.js'', IsFile),
        (''/app/node_modules/broken'', IsDirectory),
        (''/app/node_modules/broken/package.json'', IsFile)]
       [(''/app/node_modules/arr'', arr_pkg),
        (''/app/node_modules/cond'', cond_pkg),
        (''/app/node_modules/broken'', broken_pkg)]"

text \<open>
  A dependency \<^verbatim>\<open>outer\<close> whose main entry is the directory \<^verbatim>\<open>lib\<close>; the manifest in that
  directory is an empty file, which the manifest loader fails to parse.
\<close>

definition outer_pkg :: PackageData where
  "outer_pkg = package_at ''/app/node_modules/outer''
     (empty_manifest\<lparr>data_name := ''outer'', data_main := Some ''lib''\<rparr>)"

definition corrupt_env :: env where
  "corrupt_env =
     (node_env
        [(''/app'', IsDirectory), (''/app/node_modules'', IsDirectory),
         (''/app/node_modules/outer'', IsDirectory),
         (''/app/node_modules/outer/package.json'', IsFile),
         (''/app/node_modules/outer/lib'', IsDirectory),
         (''/app/node_modules/outer/lib/package.json'', IsFile),
         (''/app/node_modules/outer/lib/index.js'', IsFile)]
        [(''/app/node_modules/outer'', outer_pkg)])
     \<lparr>loadPackageData := (\<lambda>pkgPath.
         if pkgPath = ''/app/node_modules/outer/package.json'' then Inr outer_pkg
         else if pkgPath = ''/app/node_modules/outer/lib/package.json''
         then Inl (''Unexpected end of JSON input'', None)
         else Inl (''no such file or directory'', Some ''ENOENT''))\<rparr>"

text \<open>
  A manifest lists a package as an optional peer dependency when its
  \<^verbatim>\<open>peerDependencies\<close> have an entry under the name of the package and its
  \<^verbatim>\<open>peerDependenciesMeta\<close> mark that name as optional.
\<close>

definition listsOptionalPeer :: "manifest \<Rightarrow> string \<Rightarrow> bool" where
  "listsOptionalPeer mainPkg pkgName \<longleftrightarrow>
     (case data_peerDependencies mainPkg of
        None \<Rightarrow> False
      | Some deps \<Rightarrow> map_of deps pkgName \<noteq> None)
     \<and> (case data_peerDependenciesMeta mainPkg of
          None \<Rightarrow> False
        | Some metas \<Rightarrow>
            (case map_of metas pkgName of
               None \<Rightarrow> False
             | Some meta \<Rightarrow> meta_optional meta = Some True))"

text \<open>The id that stands for an optional peer dependency that is not installed.\<close>

definition optionalPeerDep :: "string \<Rightarrow> string \<Rightarrow> PartialResolvedId" where
  "optionalPeerDep ident consumer =
     \<lparr> resolved_id = optionalPeerDepId @ '':'' @ ident @ '':'' @ consumer,
       resolved_external = None,
       resolved_moduleSideEffects = None \<rparr>"

text \<open>
  The project again, where \<^verbatim>\<open>consumer\<close> lists its optional peer \<^verbatim>\<open>bar\<close> with an empty
  version range (which the package manager reads as any version).
\<close>

definition anyversion_pkg :: PackageData where
  "anyversion_pkg = package_at ''/app/node_modules/consumer''
     (empty_manifest\<lparr>data_name := ''consumer'', data_main := Some ''index.js'',
        data_peerDependencies := Some [(''bar'', [])],
        data_peerDependenciesMeta := Some [(''bar'', \<lparr>meta_optional = Some True\<rparr>)]\<rparr>)"

definition anyversion_env :: env where
  "anyversion_env =
     node_env project_files [(''/app/node_modules/consumer'', anyversion_pkg)]"











section \<open>The condition list is the configured list, resolved, and one more entry\<close>

text \<open>
  C4. For every configured condition list, \<^verbatim>\<open>getConditions\<close> returns the configured
  conditions in their order, the placeholder replaced by \<^verbatim>\<open>production\<close> when
  \<^verbatim>\<open>isProduction\<close> holds and by \<^verbatim>\<open>development\<close> otherwise, followed by exactly one more
  entry, \<^verbatim>\<open>require\<close> when \<^verbatim>\<open>isRequire\<close> is true and \<^verbatim>\<open>import\<close> otherwise. So the last
  entry is \<^verbatim>\<open>require\<close> exactly when \<^verbatim>\<open>isRequire\<close> is true, the length is the length of
  the input plus one, and every other condition stands unchanged at its place.
\<close>

theorem getConditions_list:
  "getConditions placeholder conditions isProduction isRequire =
     map (\<lambda>c. if c = placeholder
               then (if isProduction then ''production'' else ''development'')
               else c) conditions
     @ [if isRequire = Some True then ''require'' else ''import'']
   \<and> length (getConditions placeholder conditions isProduction isRequire)
       = length conditions + 1
   \<and> (last (getConditions placeholder conditions isProduction isRequire) = ''require''
        \<longleftrightarrow> isRequire = Some True)
   \<and> (last (getConditions placeholder conditions isProduction isRequire) = ''import''
        \<longleftrightarrow> isRequire \<noteq> Some True)
   \<and> (\<forall>i < length conditions.
         conditions ! i \<noteq> placeholder
         \<longrightarrow> getConditions placeholder conditions isProduction isRequire ! i = conditions ! i)
   \<and> (\<forall>i < length conditions.
         conditions ! i = placeholder
         \<longrightarrow> getConditions placeholder conditions isProduction isRequire ! i
               = (if isProduction then ''production'' else ''development''))"
proof -
  have eq: "getConditions placeholder conditions isProduction isRequire =
     map (\<lambda>c. if c = placeholder
               then (if isProduction then ''production'' else ''development'')
               else c) conditions
     @ [if isRequire = Some True then ''require'' else ''import'']"
    by (simp add: getConditions_def push_def resolveCondition_def Let_def)
  show ?thesis
    unfolding eq by (simp add: nth_append)
qed

theorem getConditions_list_witness:
  "(1::nat) < length [''module'', ''development|production'', ''node'']
   \<and> getConditions ''development|production''
        [''module'', ''development|production'', ''node''] True None
       = [''module'', ''production'', ''node'', ''import'']
   \<and> getConditions ''development|production''
        [''module'', ''development|production'', ''node''] True None ! 1 = ''production''
   \<and> getConditions ''development|production''
        [''module'', ''development|production'', ''node''] False (Some True) ! 0 = ''module''
   \<and> last (getConditions ''development|production''
        [''module'', ''development|production'', ''node''] False (Some True)) = ''require''"
  using getConditions_list [of "''development|production''"
          "[''module'', ''development|production'', ''node'']" True None]
        getConditions_list [of "''development|production''"
          "[''module'', ''development|production'', ''node'']" False "Some True"]
  by simp

section \<open>The browser table answers with its first matching key\<close>

lemma equalWithoutSuffix_iff:
  "sfx \<noteq> [] \<Longrightarrow> equalWithoutSuffix path key sfx \<longleftrightarrow> key = path @ sfx"
proof
  assume ne: "sfx \<noteq> []" and eq: "equalWithoutSuffix path key sfx"
  from eq ne have d: "drop (length key - length sfx) key = sfx"
    and t: "take (length key - length sfx) key = path"
    by (auto simp: equalWithoutSuffix_def endsWith_def sliceDropLast_def)
  have "key = take (length key - length sfx) key @ drop (length key - length sfx) key"
    by simp
  with d t show "key = path @ sfx" by simp
next
  assume ne: "sfx \<noteq> []" and "key = path @ sfx"
  then show "equalWithoutSuffix path key sfx"
    by (simp add: equalWithoutSuffix_def endsWith_def sliceDropLast_def)
qed

lemma mapWithBrowserField_loop_find:
  "mapWithBrowserField_loop normalizeFn (normalizeFn subpath) m keys =
     (case find (browserKeyMatches normalizeFn subpath) keys of
        None \<Rightarrow> None
      | Some key \<Rightarrow> map_of m key)"
proof (induction keys)
  case Nil
  show ?case by simp
next
  case (Cons key keys)
  have "(normalizeFn subpath = normalizeFn key
          \<or> equalWithoutSuffix (normalizeFn subpath) (normalizeFn key) ''.js''
          \<or> equalWithoutSuffix (normalizeFn subpath) (normalizeFn key) ''/index.js'')
        \<longleftrightarrow> browserKeyMatches normalizeFn subpath key"
    by (auto simp: equalWithoutSuffix_iff browserKeyMatches_def)
  with Cons show ?case by (simp add: Let_def)
qed

lemma mapWithBrowserField_find:
  "mapWithBrowserField normalizeFn subpath m =
     (case find (browserKeyMatches normalizeFn subpath) (map fst m) of
        None \<Rightarrow> None
      | Some key \<Rightarrow> map_of m key)"
  by (simp add: mapWithBrowserField_def mapWithBrowserField_loop_find)

lemma posix_normalize_foo: "posix_normalize ''./foo'' = ''foo''"
  by (simp add: posix_normalize_def)

lemma posix_normalize_foo_index: "posix_normalize ''./foo/index.js'' = ''foo/index.js''"
  by (simp add: posix_normalize_def)

text \<open>
  C8. For every relative subpath and every table, \<^verbatim>\<open>mapWithBrowserField\<close> normalises
  the subpath and each key and returns the value of the first key, in the iteration
  order of the table, that matches (\<open>find\<close> is the first element of a list that
  satisfies a predicate); when no key matches it returns \<^verbatim>\<open>undefined\<close>. In particular,
  under POSIX normalisation the key \<^verbatim>\<open>./foo/index.js\<close> matches the subpath \<^verbatim>\<open>./foo\<close>.
\<close>

theorem mapWithBrowserField_first_matching_key:
  "mapWithBrowserField normalizeFn subpath m =
     (case find (browserKeyMatches normalizeFn subpath) (map fst m) of
        None \<Rightarrow> None
      | Some key \<Rightarrow> map_of m key)
   \<and> browserKeyMatches posix_normalize ''./foo'' ''./foo/index.js''
   \<and> mapWithBrowserField posix_normalize ''./foo'' [(''./foo/index.js'', v)] = Some v"
proof -
  have b: "browserKeyMatches posix_normalize ''./foo'' ''./foo/index.js''"
    by (simp add: browserKeyMatches_def posix_normalize_foo posix_normalize_foo_index)
  have c: "mapWithBrowserField posix_normalize ''./foo'' [(''./foo/index.js'', v)] = Some v"
    by (simp add: mapWithBrowserField_find b)
  from mapWithBrowserField_find b c show ?thesis by blast
qed

section \<open>The typed-source swap comes before extension probing\<close>

lemma tryCleanFsResolve_is_body:
  "\<exists>packageEntry. tryCleanFsResolve depth env file options tryIndex skipPackageJson =
       tryCleanFsResolve_body packageEntry env file options tryIndex skipPackageJson"
  by (cases depth) (auto simp: tryCleanFsResolve.simps)

lemma beside_swap_ts:
  assumes "isPossibleTsOutput file"
    and "isDirectory env (path_dirname env file)"
    and "tryStatSync env (sliceDropLast file (length (path_extname env file))
            @ replaceFirst (path_extname env file) ''js'' ''ts'') = Some IsFile"
    and "getRealPath env (sliceDropLast file (length (path_extname env file))
            @ replaceFirst (path_extname env file) ''js'' ''ts'') (opt_preserveSymlinks options) \<noteq> []"
  shows "tryCleanFsResolve_beside env file options =
           Some (getRealPath env (sliceDropLast file (length (path_extname env file))
            @ replaceFirst (path_extname env file) ''js'' ''ts'') (opt_preserveSymlinks options))"
  using assms by (simp add: tryCleanFsResolve_beside_def Let_def tryResolveRealFile_def)

lemma beside_swap_tsx:
  assumes "isPossibleTsOutput file"
    and "isDirectory env (path_dirname env file)"
    and "\<not> (tryStatSync env (sliceDropLast file (length (path_extname env file))
            @ replaceFirst (path_extname env file) ''js'' ''ts'') = Some IsFile
          \<and> getRealPath env (sliceDropLast file (length (path_extname env file))
            @ replaceFirst (path_extname env file) ''js'' ''ts'') (opt_preserveSymlinks options) \<noteq> [])"
    and "path_extname env file = ''.js''"
    and "tryStatSync env (sliceDropLast file (length (path_extname env file)) @ ''.tsx'') = Some IsFile"
    and "getRealPath env (sliceDropLast file (length (path_extname env file)) @ ''.tsx'')
           (opt_preserveSymlinks options) \<noteq> []"
  shows "tryCleanFsResolve_beside env file options =
           Some (getRealPath env (sliceDropLast file (length (path_extname env file)) @ ''.tsx'')
                  (opt_preserveSymlinks options))"
  using assms by (auto simp add: tryCleanFsResolve_beside_def Let_def tryResolveRealFile_def)

lemma body_beside:
  assumes "tryStatSync env file \<noteq> Some IsFile"
    and "tryCleanFsResolve_beside env file options = Some r" and "r \<noteq> []"
  shows "tryCleanFsResolve_body packageEntry env file options tryIndex skipPackageJson = Inr (Some r)"
  using assms by (simp add: tryCleanFsResolve_body_def tryResolveRealFileOrType_def Let_def)

lemma afterLastSlash_append:
  "CHR ''/'' \<notin> set t \<Longrightarrow> afterLastSlash (s @ t) = afterLastSlash s @ t"
proof -
  assume "CHR ''/'' \<notin> set t"
  then have "takeWhile (\<lambda>c. c \<noteq> CHR ''/'') (rev t @ rev s)
               = rev t @ takeWhile (\<lambda>c. c \<noteq> CHR ''/'') (rev s)"
    by (induction t rule: rev_induct) auto
  then show ?thesis by (simp add: afterLastSlash_def)
qed

lemma posix_extname_known:
  assumes "ext = ''.js'' \<or> ext = ''.mjs'' \<or> ext = ''.cjs'' \<or> ext = ''.jsx''"
    and "afterLastSlash stem \<noteq> []"
  shows "posix_extname (stem @ ext) = ext"
proof -
  have strip: "stripTrailingSlashes (stem @ ext) = stem @ ext"
    using assms(1) by (auto simp: stripTrailingSlashes_def)
  have noslash: "CHR ''/'' \<notin> set ext"
    using assms(1) by auto
  have seg: "lastSegment (stem @ ext) = afterLastSlash stem @ ext"
    unfolding lastSegment_def strip using noslash by (rule afterLastSlash_append)
  have dot: "CHR ''.'' \<in> set (afterLastSlash stem @ ext)"
    using assms(1) by auto
  have tw: "length (takeWhile (\<lambda>c. c \<noteq> CHR ''.'') (rev (afterLastSlash stem @ ext)))
              = length ext - 1"
    using assms(1) by auto
  have len: "length ext \<ge> 3" using assms(1) by auto
  have start: "length (afterLastSlash stem @ ext) - 1 - (length ext - 1)
                 = length (afterLastSlash stem)"
    using len by simp
  have notdd: "afterLastSlash stem @ ext \<noteq> ''..''"
  proof
    assume "afterLastSlash stem @ ext = ''..''"
    then have "length (afterLastSlash stem @ ext) = 2" by simp
    with len show False by simp
  qed
  show ?thesis
    unfolding posix_extname_def seg Let_def tw start
    using dot notdd assms(2) by simp
qed

lemma swap_names:
  assumes "ext = ''.js'' \<or> ext = ''.mjs'' \<or> ext = ''.cjs'' \<or> ext = ''.jsx''"
  shows "sliceDropLast (stem @ ext) (length ext) = stem"
    and "replaceFirst ext ''js'' ''ts'' =
           (if ext = ''.js'' then ''.ts'' else if ext = ''.mjs'' then ''.mts''
            else if ext = ''.cjs'' then ''.cts'' else ''.tsx'')"
    and "isPossibleTsOutput (stem @ ext)"
  using assms by (auto simp: sliceDropLast_def isPossibleTsOutput_def endsWith_def)

text \<open>
  C5. Take a path that matches the compiled-output pattern, that is not itself an
  existing file, and whose parent directory exists. With \<^verbatim>\<open>fileExt\<close> its extension and
  \<^verbatim>\<open>fileName\<close> the path without it, \<^verbatim>\<open>tryCleanFsResolve\<close> returns the real path of
  \<^verbatim>\<open>fileName\<close> with the extension in which \<^verbatim>\<open>js\<close> is replaced by \<^verbatim>\<open>ts\<close> when that is an
  existing file; failing that, and when the extension is exactly \<^verbatim>\<open>.js\<close>, it returns
  the real path of \<^verbatim>\<open>fileName.tsx\<close> when that is an existing file. This holds whatever
  else exists and whatever extensions and prefix are configured: no extension probe
  is consulted before the swap. (A real path is never empty on a real file system;
  the resolver tests its probes for truthiness, hence the condition.) Under POSIX
  paths, for a path \<^verbatim>\<open>stem.js\<close>, \<^verbatim>\<open>stem.mjs\<close>, \<^verbatim>\<open>stem.cjs\<close> or \<^verbatim>\<open>stem.jsx\<close> whose last
  portion does not start with the dot, the two files are \<^verbatim>\<open>stem.ts\<close>, \<^verbatim>\<open>stem.mts\<close>,
  \<^verbatim>\<open>stem.cts\<close> or \<^verbatim>\<open>stem.tsx\<close>, and \<^verbatim>\<open>stem.tsx\<close>.
\<close>

theorem tryCleanFsResolve_swap_priority:
  assumes "isPossibleTsOutput file"
    and "tryStatSync env file \<noteq> Some IsFile"
    and "isDirectory env (path_dirname env file)"
    and "fileExt = path_extname env file"
    and "fileName = sliceDropLast file (length fileExt)"
    and "ts = fileName @ replaceFirst fileExt ''js'' ''ts''"
    and "tsx = fileName @ ''.tsx''"
    and "preserveSymlinks = opt_preserveSymlinks options"
  shows "(tryStatSync env ts = Some IsFile \<and> getRealPath env ts preserveSymlinks \<noteq> []
            \<longrightarrow> tryCleanFsResolve depth env file options tryIndex skipPackageJson
                  = Inr (Some (getRealPath env ts preserveSymlinks)))
       \<and> (\<not> (tryStatSync env ts = Some IsFile \<and> getRealPath env ts preserveSymlinks \<noteq> [])
            \<and> fileExt = ''.js''
            \<and> tryStatSync env tsx = Some IsFile \<and> getRealPath env tsx preserveSymlinks \<noteq> []
            \<longrightarrow> tryCleanFsResolve depth env file options tryIndex skipPackageJson
                  = Inr (Some (getRealPath env tsx preserveSymlinks)))
       \<and> (path_extname env = posix_extname
            \<and> file = stem @ ext
            \<and> (ext = ''.js'' \<or> ext = ''.mjs'' \<or> ext = ''.cjs'' \<or> ext = ''.jsx'')
            \<and> afterLastSlash stem \<noteq> []
            \<longrightarrow> fileExt = ext
                \<and> ts = stem @ (if ext = ''.js'' then ''.ts'' else if ext = ''.mjs'' then ''.mts''
                                else if ext = ''.cjs'' then ''.cts'' else ''.tsx'')
                \<and> tsx = stem @ ''.tsx'')"
proof -
  obtain packageEntry where body:
    "tryCleanFsResolve depth env file options tryIndex skipPackageJson =
       tryCleanFsResolve_body packageEntry env file options tryIndex skipPackageJson"
    using tryCleanFsResolve_is_body by blast
  have first: "tryCleanFsResolve depth env file options tryIndex skipPackageJson
                  = Inr (Some (getRealPath env ts preserveSymlinks))"
    if "tryStatSync env ts = Some IsFile" "getRealPath env ts preserveSymlinks \<noteq> []"
  proof -
    have "tryCleanFsResolve_beside env file options = Some (getRealPath env ts preserveSymlinks)"
      using that assms beside_swap_ts [of "file" env options] by simp
    with that assms(2) show ?thesis
      unfolding body by (rule_tac body_beside) auto
  qed
  have second: "tryCleanFsResolve depth env file options tryIndex skipPackageJson
                  = Inr (Some (getRealPath env tsx preserveSymlinks))"
    if "\<not> (tryStatSync env ts = Some IsFile \<and> getRealPath env ts preserveSymlinks \<noteq> [])"
       "fileExt = ''.js''"
       "tryStatSync env tsx = Some IsFile" "getRealPath env tsx preserveSymlinks \<noteq> []"
  proof -
    have "tryCleanFsResolve_beside env file options = Some (getRealPath env tsx preserveSymlinks)"
      using that assms beside_swap_tsx [of "file" env options] by simp
    with that assms(2) show ?thesis
      unfolding body by (rule_tac body_beside) auto
  qed
  have third: "fileExt = ext
                \<and> ts = stem @ (if ext = ''.js'' then ''.ts'' else if ext = ''.mjs'' then ''.mts''
                                else if ext = ''.cjs'' then ''.cts'' else ''.tsx'')
                \<and> tsx = stem @ ''.tsx''"
    if "path_extname env = posix_extname" "file = stem @ ext"
       "ext = ''.js'' \<or> ext = ''.mjs'' \<or> ext = ''.cjs'' \<or> ext = ''.jsx''"
       "afterLastSlash stem \<noteq> []"
  proof -
    have e: "fileExt = ext"
      unfolding assms(4) that(1) that(2) using that(3,4) by (rule posix_extname_known)
    have n: "fileName = stem"
      unfolding assms(5) e that(2) using that(3) by (rule swap_names(1))
    show ?thesis
      unfolding assms(6,7) n using e swap_names(2) [OF that(3)] by simp
  qed
  from first second third show ?thesis by blast
qed

theorem tryCleanFsResolve_swap_priority_witness:
  "isPossibleTsOutput ''/app/src/x.js''
   \<and> tryStatSync (node_env swap_files []) ''/app/src/x.js'' \<noteq> Some IsFile
   \<and> isDirectory (node_env swap_files [])
         (path_dirname (node_env swap_files []) ''/app/src/x.js'')
   \<and> tryStatSync (node_env swap_files []) ''/app/src/x.ts'' = Some IsFile
   \<and> tryStatSync (node_env swap_files []) ''/app/src/x.js.js'' = Some IsFile
   \<and> ''.js'' \<in> set (opt_extensions default_options)
   \<and> tryCleanFsResolve 0 (node_env swap_files []) ''/app/src/x.js'' default_options True False
       = Inr (Some ''/app/src/x.ts'')
   \<and> path_extname (node_env swap_files []) = posix_extname
   \<and> afterLastSlash ''/app/src/x'' \<noteq> []
   \<and> path_extname (node_env swap_files []) ''/app/src/x.js'' = ''.js''"
proof -
  have h1: "isPossibleTsOutput ''/app/src/x.js''"
    by code_simp
  have h2: "tryStatSync (node_env swap_files []) ''/app/src/x.js'' \<noteq> Some IsFile"
    by code_simp
  have h3: "isDirectory (node_env swap_files [])
              (path_dirname (node_env swap_files []) ''/app/src/x.js'')"
    by code_simp
  have ts: "sliceDropLast ''/app/src/x.js''
              (length (path_extname (node_env swap_files []) ''/app/src/x.js''))
            @ replaceFirst (path_extname (node_env swap_files []) ''/app/src/x.js'') ''js'' ''ts''
            = ''/app/src/x.ts''"
    by code_simp
  have f: "tryStatSync (node_env swap_files []) ''/app/src/x.ts'' = Some IsFile"
    by code_simp
  have g: "getRealPath (node_env swap_files []) ''/app/src/x.ts''
             (opt_preserveSymlinks default_options) = ''/app/src/x.ts''"
    by code_simp
  have other: "tryStatSync (node_env swap_files []) ''/app/src/x.js.js'' = Some IsFile"
    by code_simp
  have ext: "''.js'' \<in> set (opt_extensions default_options)"
    by code_simp
  note T = tryCleanFsResolve_swap_priority
             [OF h1 h2 h3 refl refl refl refl refl,
              where depth = 0 and options = default_options
                and tryIndex = True and skipPackageJson = False
                and stem = "''/app/src/x''" and ext = "''.js''"]
  have r: "tryCleanFsResolve 0 (node_env swap_files []) ''/app/src/x.js'' default_options
             True False = Inr (Some ''/app/src/x.ts'')"
    using T [THEN conjunct1] unfolding ts g using f by simp
  have px: "path_extname (node_env swap_files []) = posix_extname"
    by (simp add: node_env_def)
  have st: "afterLastSlash ''/app/src/x'' \<noteq> []"
    by code_simp
  have cat: "''/app/src/x.js'' = ''/app/src/x'' @ ''.js''"
    by simp
  have e: "path_extname (node_env swap_files []) ''/app/src/x.js'' = ''.js''"
    using T [THEN conjunct2, THEN conjunct2, THEN mp, THEN conjunct1] px st cat by blast
  from h1 h2 h3 f other ext r px st e show ?thesis by blast
qed

section \<open>Strings before and after the first query or hash\<close>

lemma indexOf_takeWhile:
  "indexOf s c = (if c \<in> set s then int (length (takeWhile (\<lambda>x. x \<noteq> c) s)) else - 1)"
  by (induction s) (auto simp: Let_def)

lemma indexOf_absent: "c \<notin> set s \<Longrightarrow> indexOf s c = - 1"
  by (simp add: indexOf_takeWhile)

lemma takeWhile_absent:
  "c \<notin> set pre \<Longrightarrow> takeWhile (\<lambda>x. x \<noteq> c) (pre @ ys) = pre @ takeWhile (\<lambda>x. x \<noteq> c) ys"
  by (induction pre) auto

lemma indexOf_first: "c \<notin> set pre \<Longrightarrow> indexOf (pre @ c # rest) c = int (length pre)"
  by (simp add: indexOf_takeWhile takeWhile_absent)

lemma indexOf_after:
  "c \<notin> set pre \<Longrightarrow> c \<noteq> d \<Longrightarrow> c \<in> set rest \<Longrightarrow>
     indexOf (pre @ d # rest) c = int (length pre + 1 + length (takeWhile (\<lambda>x. x \<noteq> c) rest))"
  by (simp add: indexOf_takeWhile takeWhile_absent)

lemma cleanUrl_bare:
  assumes "CHR ''?'' \<notin> set f" "CHR ''#'' \<notin> set f" "c = CHR ''?'' \<or> c = CHR ''#''"
  shows "cleanUrl (f @ c # rest) = f"
proof -
  have "\<forall>x\<in>set f. x \<noteq> CHR ''?'' \<and> x \<noteq> CHR ''#''" using assms by auto
  then show ?thesis using assms(3) unfolding cleanUrl_def
    by (subst takeWhile_append2) auto
qed


lemma split_bare:
  assumes "CHR ''?'' \<notin> set f" "CHR ''#'' \<notin> set f" "c = CHR ''?'' \<or> c = CHR ''#''"
  shows "splitFileAndPostfix (f @ c # rest) = (f, c # rest)"
  using cleanUrl_bare [OF assms] by (simp add: splitFileAndPostfix_def Let_def)


lemma cleanUrl_hash:
  assumes "CHR ''#'' \<notin> set pre"
  shows "cleanUrl (pre @ CHR ''#'' # rest) = takeWhile (\<lambda>c. c \<noteq> CHR ''?'') pre"
proof -
  have a: "takeWhile (\<lambda>c. c \<noteq> CHR ''?'' \<and> c \<noteq> CHR ''#'') pre = takeWhile (\<lambda>c. c \<noteq> CHR ''?'') pre"
    using assms by (intro takeWhile_cong) auto
  show ?thesis
  proof (cases "CHR ''?'' \<in> set pre")
    case True
    then obtain x where "x \<in> set pre" "\<not> (x \<noteq> CHR ''?'' \<and> x \<noteq> CHR ''#'')" by auto
    then have "takeWhile (\<lambda>c. c \<noteq> CHR ''?'' \<and> c \<noteq> CHR ''#'') (pre @ CHR ''#'' # rest)
        = takeWhile (\<lambda>c. c \<noteq> CHR ''?'' \<and> c \<noteq> CHR ''#'') pre"
      by (rule takeWhile_append1)
    with a show ?thesis by (simp add: cleanUrl_def)
  next
    case False
    with assms have "cleanUrl (pre @ CHR ''#'' # rest) = pre"
      by (intro cleanUrl_bare) auto
    moreover from False have "takeWhile (\<lambda>c. c \<noteq> CHR ''?'') pre = pre"
      by (auto simp: takeWhile_eq_all_conv)
    ultimately show ?thesis by (simp only:)
  qed
qed

lemma split_hash:
  assumes "CHR ''#'' \<notin> set pre"
  shows "splitFileAndPostfix (pre @ CHR ''#'' # rest) =
           (takeWhile (\<lambda>c. c \<noteq> CHR ''?'') pre, dropWhile (\<lambda>c. c \<noteq> CHR ''?'') pre @ CHR ''#'' # rest)"
proof -
  have "drop (length (takeWhile (\<lambda>c. c \<noteq> CHR ''?'') pre)) (pre @ CHR ''#'' # rest)
        = dropWhile (\<lambda>c. c \<noteq> CHR ''?'') pre @ CHR ''#'' # rest"
    by (metis append.assoc append_eq_conv_conj takeWhile_dropWhile_id)
  then show ?thesis
    using cleanUrl_hash [OF assms] by (simp add: splitFileAndPostfix_def Let_def)
qed

lemma literal_file:
  fixes pre rest :: string
  assumes "CHR ''#'' \<notin> set pre" "CHR ''?'' \<notin> set pre"
  shows "indexOf (pre @ CHR ''#'' # rest) CHR ''#'' \<ge> 0"
    and "indexOf (pre @ CHR ''#'' # rest) CHR ''?'' < 0
         \<or> indexOf (pre @ CHR ''#'' # rest) CHR ''?'' > indexOf (pre @ CHR ''#'' # rest) CHR ''#''"
    and "(if indexOf (pre @ CHR ''#'' # rest) CHR ''?'' > indexOf (pre @ CHR ''#'' # rest) CHR ''#''
          then take (nat (indexOf (pre @ CHR ''#'' # rest) CHR ''?'')) (pre @ CHR ''#'' # rest)
          else pre @ CHR ''#'' # rest)
         = pre @ CHR ''#'' # takeWhile (\<lambda>c. c \<noteq> CHR ''?'') rest"
proof -
  have h: "indexOf (pre @ CHR ''#'' # rest) CHR ''#'' = int (length pre)"
    using assms(1) by (rule indexOf_first)
  show "indexOf (pre @ CHR ''#'' # rest) CHR ''#'' \<ge> 0"
    unfolding h by simp
  show "indexOf (pre @ CHR ''#'' # rest) CHR ''?'' < 0
         \<or> indexOf (pre @ CHR ''#'' # rest) CHR ''?'' > indexOf (pre @ CHR ''#'' # rest) CHR ''#''"
  proof (cases "CHR ''?'' \<in> set rest")
    case True
    have "indexOf (pre @ CHR ''#'' # rest) CHR ''?'' =
            int (length pre + 1 + length (takeWhile (\<lambda>x. x \<noteq> CHR ''?'') rest))"
      using assms(2) _ True by (rule indexOf_after) simp
    then show ?thesis unfolding h by linarith
  next
    case False
    with assms(2) have "CHR ''?'' \<notin> set (pre @ CHR ''#'' # rest)" by simp
    then have "indexOf (pre @ CHR ''#'' # rest) CHR ''?'' = - 1" by (rule indexOf_absent)
    then show ?thesis by linarith
  qed
  show "(if indexOf (pre @ CHR ''#'' # rest) CHR ''?'' > indexOf (pre @ CHR ''#'' # rest) CHR ''#''
          then take (nat (indexOf (pre @ CHR ''#'' # rest) CHR ''?'')) (pre @ CHR ''#'' # rest)
          else pre @ CHR ''#'' # rest)
         = pre @ CHR ''#'' # takeWhile (\<lambda>c. c \<noteq> CHR ''?'') rest"
  proof (cases "CHR ''?'' \<in> set rest")
    case True
    have q: "indexOf (pre @ CHR ''#'' # rest) CHR ''?'' =
            int (length pre + 1 + length (takeWhile (\<lambda>x. x \<noteq> CHR ''?'') rest))"
      using assms(2) _ True by (rule indexOf_after) simp
    have "take (length pre + 1 + length (takeWhile (\<lambda>x. x \<noteq> CHR ''?'') rest)) (pre @ CHR ''#'' # rest)
            = pre @ CHR ''#'' # takeWhile (\<lambda>c. c \<noteq> CHR ''?'') rest"
      using takeWhile_eq_take [of "\<lambda>c. c \<noteq> CHR ''?''" rest, symmetric] by simp
    then show ?thesis unfolding h q by (simp only: nat_int) simp
  next
    case False
    then have tw: "takeWhile (\<lambda>x. x \<noteq> CHR ''?'') rest = rest"
      by (auto simp: takeWhile_eq_all_conv)
    from False assms(2) have "CHR ''?'' \<notin> set (pre @ CHR ''#'' # rest)" by simp
    then have "indexOf (pre @ CHR ''#'' # rest) CHR ''?'' = - 1" by (rule indexOf_absent)
    then show ?thesis unfolding h tw by simp
  qed
qed

section \<open>A hash in a dependency path is tried as part of the file name first\<close>

lemma tryFsResolve_body_literal:
  assumes "indexOf fsPath CHR ''#'' \<ge> 0" "isInNodeModules env fsPath"
    and "indexOf fsPath CHR ''?'' < 0 \<or> indexOf fsPath CHR ''?'' > indexOf fsPath CHR ''#''"
    and "lit = (if indexOf fsPath CHR ''?'' > indexOf fsPath CHR ''#''
                then take (nat (indexOf fsPath CHR ''?'')) fsPath else fsPath)"
    and "splitFileAndPostfix fsPath = (bare, postfix)"
  shows "tryFsResolve_body cleanFsResolve env fsPath =
           (case cleanFsResolve lit of
              Inl e \<Rightarrow> Inl e
            | Inr res \<Rightarrow>
                if truthy res then Inr (reattach (drop (length lit) fsPath) res)
                else (case cleanFsResolve bare of
                        Inl e \<Rightarrow> Inl e
                      | Inr res' \<Rightarrow> Inr (withPostfix res' postfix)))"
proof (cases "cleanFsResolve lit")
  case (Inl e)
  with assms show ?thesis by (simp add: tryFsResolve_body_def Let_def)
next
  case (Inr res)
  show ?thesis
  proof (cases res)
    case None
    with Inr assms show ?thesis
      by (simp add: tryFsResolve_body_def Let_def split_beta)
  next
    case (Some r)
    with Inr assms show ?thesis
      by (simp add: tryFsResolve_body_def Let_def split_beta)
  qed
qed

lemma tryFsResolve_body_plain:
  assumes "\<not> (indexOf fsPath CHR ''#'' \<ge> 0 \<and> isInNodeModules env fsPath
             \<and> (indexOf fsPath CHR ''?'' < 0 \<or> indexOf fsPath CHR ''?'' > indexOf fsPath CHR ''#''))"
    and "splitFileAndPostfix fsPath = (bare, postfix)"
  shows "tryFsResolve_body cleanFsResolve env fsPath =
           (case cleanFsResolve bare of
              Inl e \<Rightarrow> Inl e
            | Inr res' \<Rightarrow> Inr (withPostfix res' postfix))"
  using assms by (auto simp add: tryFsResolve_body_def Let_def split_beta)


lemma drop_literal:
  "drop (length (pre @ CHR ''#'' # takeWhile (\<lambda>c. c \<noteq> CHR ''?'') rest)) (pre @ CHR ''#'' # rest)
     = dropWhile (\<lambda>c. c \<noteq> CHR ''?'') rest"
proof -
  have "drop (length (takeWhile (\<lambda>c. c \<noteq> CHR ''?'') rest)) rest = dropWhile (\<lambda>c. c \<noteq> CHR ''?'') rest"
    by (rule dropWhile_eq_drop [symmetric])
  then show ?thesis by simp
qed

lemma split_hash_bare:
  assumes "CHR ''#'' \<notin> set pre" "CHR ''?'' \<notin> set pre"
  shows "splitFileAndPostfix (pre @ CHR ''#'' # rest) = (pre, CHR ''#'' # rest)"
  using assms by (intro split_bare) auto

text \<open>
  C10. Take a path with a \<^verbatim>\<open>#\<close>, \<open>pre\<close> being what stands before the first one. When
  the path is inside \<^verbatim>\<open>node_modules\<close> and no \<^verbatim>\<open>?\<close> stands before the \<^verbatim>\<open>#\<close>,
  \<^verbatim>\<open>tryFsResolve\<close> first resolves the path up to a later \<^verbatim>\<open>?\<close>, the \<^verbatim>\<open>#\<close> included, as a
  file name, and on success reattaches the remainder; only when that yields nothing
  does it resolve \<open>pre\<close> and reattach the \<^verbatim>\<open>#\<close> and all that follows as the postfix.
  When the path is outside \<^verbatim>\<open>node_modules\<close>, the file that is resolved ends before the
  first \<^verbatim>\<open>?\<close> or \<^verbatim>\<open>#\<close>, and the \<^verbatim>\<open>#\<close> with all that follows is part of the postfix.
\<close>

theorem tryFsResolve_hash_handling:
  fixes pre rest :: string
  assumes "CHR ''#'' \<notin> set pre"
    and "fsPath = pre @ CHR ''#'' # rest"
    and "literal = pre @ CHR ''#'' # takeWhile (\<lambda>c. c \<noteq> CHR ''?'') rest"
    and "remainder = dropWhile (\<lambda>c. c \<noteq> CHR ''?'') rest"
  shows "(isInNodeModules env fsPath \<and> CHR ''?'' \<notin> set pre \<longrightarrow>
            tryFsResolve depth env fsPath options tryIndex skipPackageJson =
              (case tryCleanFsResolve depth env literal options tryIndex skipPackageJson of
                 Inl e \<Rightarrow> Inl e
               | Inr res \<Rightarrow>
                   if truthy res then Inr (reattach remainder res)
                   else
                     (case tryCleanFsResolve depth env pre options tryIndex skipPackageJson of
                        Inl e \<Rightarrow> Inl e
                      | Inr res' \<Rightarrow> Inr (withPostfix res' (CHR ''#'' # rest)))))
       \<and> (\<not> isInNodeModules env fsPath \<longrightarrow>
            tryFsResolve depth env fsPath options tryIndex skipPackageJson =
              (case tryCleanFsResolve depth env (takeWhile (\<lambda>c. c \<noteq> CHR ''?'') pre) options
                      tryIndex skipPackageJson of
                 Inl e \<Rightarrow> Inl e
               | Inr res \<Rightarrow>
                   Inr (withPostfix res
                          (dropWhile (\<lambda>c. c \<noteq> CHR ''?'') pre @ CHR ''#'' # rest))))"
proof -
  have inside: "tryFsResolve depth env fsPath options tryIndex skipPackageJson =
              (case tryCleanFsResolve depth env literal options tryIndex skipPackageJson of
                 Inl e \<Rightarrow> Inl e
               | Inr res \<Rightarrow>
                   if truthy res then Inr (reattach remainder res)
                   else
                     (case tryCleanFsResolve depth env pre options tryIndex skipPackageJson of
                        Inl e \<Rightarrow> Inl e
                      | Inr res' \<Rightarrow> Inr (withPostfix res' (CHR ''#'' # rest))))"
    if nm: "isInNodeModules env fsPath" and q: "CHR ''?'' \<notin> set pre"
  proof -
    note lf = literal_file [OF assms(1) q, of rest]
    have lit: "literal = (if indexOf fsPath CHR ''?'' > indexOf fsPath CHR ''#''
                then take (nat (indexOf fsPath CHR ''?'')) fsPath else fsPath)"
      unfolding assms(2) assms(3) using lf(3) by simp
    have d: "drop (length literal) fsPath = remainder"
      unfolding assms by (rule drop_literal)
    have sp: "splitFileAndPostfix fsPath = (pre, CHR ''#'' # rest)"
      unfolding assms(2) using assms(1) q by (rule split_hash_bare)
    show ?thesis
      unfolding tryFsResolve.simps
      using tryFsResolve_body_literal
              [OF lf(1) [folded assms(2)] nm lf(2) [folded assms(2)] lit sp,
               of "\<lambda>f. tryCleanFsResolve depth env f options tryIndex skipPackageJson"]
      unfolding d by simp
  qed
  have outside: "tryFsResolve depth env fsPath options tryIndex skipPackageJson =
              (case tryCleanFsResolve depth env (takeWhile (\<lambda>c. c \<noteq> CHR ''?'') pre) options
                      tryIndex skipPackageJson of
                 Inl e \<Rightarrow> Inl e
               | Inr res \<Rightarrow>
                   Inr (withPostfix res
                          (dropWhile (\<lambda>c. c \<noteq> CHR ''?'') pre @ CHR ''#'' # rest)))"
    if nm: "\<not> isInNodeModules env fsPath"
  proof -
    have sp: "splitFileAndPostfix fsPath =
           (takeWhile (\<lambda>c. c \<noteq> CHR ''?'') pre, dropWhile (\<lambda>c. c \<noteq> CHR ''?'') pre @ CHR ''#'' # rest)"
      unfolding assms(2) using assms(1) by (rule split_hash)
    have "\<not> (indexOf fsPath CHR ''#'' \<ge> 0 \<and> isInNodeModules env fsPath
             \<and> (indexOf fsPath CHR ''?'' < 0 \<or> indexOf fsPath CHR ''?'' > indexOf fsPath CHR ''#''))"
      using nm by simp
    from tryFsResolve_body_plain [OF this sp,
           of "\<lambda>f. tryCleanFsResolve depth env f options tryIndex skipPackageJson"]
    show ?thesis
      unfolding tryFsResolve.simps by simp
  qed
  from inside outside show ?thesis by blast
qed

theorem tryFsResolve_hash_handling_witness:
  "CHR ''#'' \<notin> set ''/app/node_modules/p/foo''
   \<and> CHR ''?'' \<notin> set ''/app/node_modules/p/foo''
   \<and> isInNodeModules (node_env hash_files []) ''/app/node_modules/p/foo#bar?v=1''
   \<and> tryFsResolve 0 (node_env hash_files []) ''/app/node_modules/p/foo#bar?v=1''
         default_options True False
       = Inr (Some ''/app/node_modules/p/foo#bar.js?v=1'')
   \<and> isInNodeModules (node_env hash_files []) ''/app/node_modules/p/foo#baz''
   \<and> tryFsResolve 0 (node_env hash_files []) ''/app/node_modules/p/foo#baz''
         default_options True False
       = Inr (Some ''/app/node_modules/p/foo.js#baz'')
   \<and> CHR ''#'' \<notin> set ''/app/src/foo''
   \<and> \<not> isInNodeModules (node_env hash_files []) ''/app/src/foo#bar''
   \<and> tryStatSync (node_env hash_files []) ''/app/src/foo#bar.js'' = Some IsFile
   \<and> tryFsResolve 0 (node_env hash_files []) ''/app/src/foo#bar'' default_options True False
       = Inr (Some ''/app/src/foo.js#bar'')"
proof -
  have h1: "CHR ''#'' \<notin> set ''/app/node_modules/p/foo''" by simp
  have q1: "CHR ''?'' \<notin> set ''/app/node_modules/p/foo''" by simp
  have n1: "isInNodeModules (node_env hash_files []) ''/app/node_modules/p/foo#bar?v=1''"
    by code_simp
  have l1: "tryCleanFsResolve 0 (node_env hash_files []) ''/app/node_modules/p/foo#bar''
              default_options True False = Inr (Some ''/app/node_modules/p/foo#bar.js'')"
    by code_simp
  have r1: "tryFsResolve 0 (node_env hash_files []) ''/app/node_modules/p/foo#bar?v=1''
              default_options True False = Inr (Some ''/app/node_modules/p/foo#bar.js?v=1'')"
    using tryFsResolve_hash_handling
            [OF h1 refl refl refl,
             where rest = "''bar?v=1''" and env = "node_env hash_files []" and depth = 0
               and options = default_options and tryIndex = True and skipPackageJson = False]
          n1 l1
    by simp
  have n2: "isInNodeModules (node_env hash_files []) ''/app/node_modules/p/foo#baz''"
    by code_simp
  have l2: "tryCleanFsResolve 0 (node_env hash_files []) ''/app/node_modules/p/foo#baz''
              default_options True False = Inr None"
    by code_simp
  have b2: "tryCleanFsResolve 0 (node_env hash_files []) ''/app/node_modules/p/foo''
              default_options True False = Inr (Some ''/app/node_modules/p/foo.js'')"
    by code_simp
  have r2: "tryFsResolve 0 (node_env hash_files []) ''/app/node_modules/p/foo#baz''
              default_options True False = Inr (Some ''/app/node_modules/p/foo.js#baz'')"
    using tryFsResolve_hash_handling
            [OF h1 refl refl refl,
             where rest = "''baz''" and env = "node_env hash_files []" and depth = 0
               and options = default_options and tryIndex = True and skipPackageJson = False]
          n2 l2 b2
    by simp
  have h3: "CHR ''#'' \<notin> set ''/app/src/foo''" by simp
  have n3: "\<not> isInNodeModules (node_env hash_files []) ''/app/src/foo#bar''"
    by code_simp
  have f3: "tryStatSync (node_env hash_files []) ''/app/src/foo#bar.js'' = Some IsFile"
    by code_simp
  have b3: "tryCleanFsResolve 0 (node_env hash_files []) ''/app/src/foo''
              default_options True False = Inr (Some ''/app/src/foo.js'')"
    by code_simp
  have r3: "tryFsResolve 0 (node_env hash_files []) ''/app/src/foo#bar''
              default_options True False = Inr (Some ''/app/src/foo.js#bar'')"
    using tryFsResolve_hash_handling
            [OF h3 refl refl refl,
             where rest = "''bar''" and env = "node_env hash_files []" and depth = 0
               and options = default_options and tryIndex = True and skipPackageJson = False]
          n3 b3
    by simp
  from h1 q1 n1 r1 n2 r2 h3 n3 f3 r3 show ?thesis by blast
qed

section \<open>The postfix is reattached, a literal hash apart\<close>
























section \<open>A subpath that the export map does not expose is an error\<close>

lemma includes_str_prefix: "includes_str (b @ c) b"
proof (cases "b @ c")
  case Nil
  then show ?thesis by simp
next
  case (Cons x xs)
  have "take (length b) (b @ c) = b" by simp
  with Cons show ?thesis by (metis includes_str.simps(2))
qed

lemma includes_str_middle: "includes_str (a @ b @ c) b"
  by (induction a) (auto simp: includes_str_prefix)


lemma resolvePackageEntry_body_error:
  assumes "resolvePackageEntry_body f env ident pkg options = Inl e"
  shows "\<exists>details. e = packageEntryFailure ident details"
proof -
  obtain idw postfix where sp: "splitFileAndPostfix ident = (idw, postfix)"
    by (cases "splitFileAndPostfix ident")
  show ?thesis
  proof (cases "withPostfix (getResolvedCache pkg ''.'') postfix")
    case (Some hit)
    with assms sp show ?thesis by (simp add: resolvePackageEntry_body_def)
  next
    case None
    show ?thesis
    proof (cases "resolvePackageEntry_try f env postfix pkg options")
      case (Inl e')
      with assms sp None show ?thesis by (auto simp add: resolvePackageEntry_body_def)
    next
      case (Inr r)
      with assms sp None show ?thesis
        by (cases r) (auto simp add: resolvePackageEntry_body_def)
    qed
  qed
qed

lemma resolvePackageEntry_error:
  assumes "resolvePackageEntry depth env ident pkg options = Inl e"
  shows "\<exists>details. e = packageEntryFailure ident details"
  using assms unfolding resolvePackageEntry.simps by (rule resolvePackageEntry_body_error)


















section \<open>A package entry resolves or throws\<close>

lemma entryPoints_loop_success:
  assumes "entryPoints_loop f env postfix pkg options entries = Inr (Some (resolved, pkg'))"
  shows "\<exists>entry skip res. f (path_join env (pkg_dir pkg) entry) True skip = Inr (Some res)
           \<and> res \<noteq> [] \<and> resolved = res @ postfix \<and> pkg' = setResolvedCache pkg ''.'' res"
  using assms
proof (induction entries)
  case Nil
  then show ?case by simp
next
  case (Cons entry entries)
  obtain entry' skip where ec: "entryCandidate env (pkg_data pkg) options entry = (entry', skip)"
    by (cases "entryCandidate env (pkg_data pkg) options entry")
  show ?case
  proof (cases "f (path_join env (pkg_dir pkg) entry') True skip")
    case (Inl e)
    with ec Cons.prems show ?thesis by simp
  next
    case (Inr r)
    show ?thesis
    proof (cases r)
      case None
      with Inr ec Cons show ?thesis by simp
    next
      case (Some res)
      show ?thesis
      proof (cases "res = []")
        case True
        with Some Inr ec Cons show ?thesis by simp
      next
        case False
        with Some Inr ec Cons.prems have "resolved = res @ postfix"
          "pkg' = setResolvedCache pkg ''.'' res" by simp_all
        with Inr Some False show ?thesis by blast
      qed
    qed
  qed
qed

lemma resolvePackageEntry_try_success:
  assumes "resolvePackageEntry_try f env postfix pkg options = Inr (Some (resolved, pkg'))"
  shows "\<exists>entry skip res. f (path_join env (pkg_dir pkg) entry) True skip = Inr (Some res)
           \<and> res \<noteq> [] \<and> resolved = res @ postfix \<and> pkg' = setResolvedCache pkg ''.'' res"
proof -
  from assms obtain entries where
    "entryPoints_loop f env postfix pkg options entries = Inr (Some (resolved, pkg'))"
    unfolding resolvePackageEntry_try_def Let_def
    by (auto split: sum.splits if_splits)
  then show ?thesis by (rule entryPoints_loop_success)
qed

lemma resolvePackageEntry_body_cases:
  assumes "splitFileAndPostfix ident = (idw, postfix)"
  shows "resolvePackageEntry_body f env ident pkg options =
           (case withPostfix (getResolvedCache pkg ''.'') postfix of
              Some hit \<Rightarrow> Inr (Some hit, pkg)
            | None \<Rightarrow>
                (case resolvePackageEntry_try f env postfix pkg options of
                   Inl e \<Rightarrow> Inl (packageEntryFailure ident (Some (error_message e)))
                 | Inr (Some (resolved, pkg')) \<Rightarrow> Inr (Some resolved, pkg')
                 | Inr None \<Rightarrow> Inl (packageEntryFailure ident None)))"
  using assms by (simp add: resolvePackageEntry_body_def)

lemma resolvePackageEntry_body_defined:
  "resolvePackageEntry_body f env ident pkg options \<noteq> Inr (None, pkg')"
proof -
  obtain idw postfix where sp: "splitFileAndPostfix ident = (idw, postfix)"
    by (cases "splitFileAndPostfix ident")
  show ?thesis
    unfolding resolvePackageEntry_body_cases [OF sp]
    by (auto split: option.splits sum.splits)
qed

lemma packageEntryFailure_facts:
  "error_code (packageEntryFailure ident details) = Some ERR_RESOLVE_PACKAGE_ENTRY_FAIL"
  "includes_str (error_message (packageEntryFailure ident details)) ident"
proof -
  show "error_code (packageEntryFailure ident details) = Some ERR_RESOLVE_PACKAGE_ENTRY_FAIL"
    by (simp add: packageEntryFailure_def)
  have "error_message (packageEntryFailure ident details) =
          ''Failed to resolve entry for package \"'' @ ident @
          (''\". '' @ ''The package may have incorrect main/module/exports specified in its package.json''
           @ (case details of None \<Rightarrow> ''.'' | Some d \<Rightarrow> if d = [] then ''.'' else '': '' @ d))"
    by (simp add: packageEntryFailure_def)
  then show "includes_str (error_message (packageEntryFailure ident details)) ident"
    by (simp only: includes_str_middle)
qed

lemma endsWith_append: "endsWith (a @ b) b"
  by (simp add: endsWith_def)

lemma packageEntryFailure_details:
  assumes "d \<noteq> []"
  shows "endsWith (error_message (packageEntryFailure ident (Some d))) ('': '' @ d)"
proof -
  have "error_message (packageEntryFailure ident (Some d)) =
          (''Failed to resolve entry for package \"'' @ ident @ ''\". ''
           @ ''The package may have incorrect main/module/exports specified in its package.json'')
          @ ('': '' @ d)"
    using assms by (simp add: packageEntryFailure_def)
  then show ?thesis by (simp only: endsWith_append)
qed

lemma resolvePackageEntry_try_entryPoints:
  "resolvePackageEntry_try f env postfix pkg options =
     (case resolvePackageEntry_entryPoints f env pkg options of
        Inl e \<Rightarrow> Inl e
      | Inr entryPoints \<Rightarrow> entryPoints_loop f env postfix pkg options entryPoints)"
  by (simp add: resolvePackageEntry_try_def resolvePackageEntry_entryPoints_def Let_def
           split: sum.splits)

lemma entryPoints_loop_step:
  "entryPoints_loop f env postfix pkg options (entry # entries) =
     (case resolvePackageEntry_attempt f env pkg options entry of
        Inl e \<Rightarrow> Inl e
      | Inr r \<Rightarrow>
          if truthy r then Inr (Some (the r @ postfix, setResolvedCache pkg ''.'' (the r)))
          else entryPoints_loop f env postfix pkg options entries)"
  by (cases "entryCandidate env (pkg_data pkg) options entry")
     (auto simp: resolvePackageEntry_attempt_def split: sum.splits option.splits)

lemma entryPoints_loop_none:
  assumes "\<forall>entry\<in>set entries. \<exists>r. resolvePackageEntry_attempt f env pkg options entry = Inr r
             \<and> \<not> truthy r"
  shows "entryPoints_loop f env postfix pkg options entries = Inr None"
  using assms
proof (induction entries)
  case Nil
  show ?case by simp
next
  case (Cons entry entries)
  then show ?case unfolding entryPoints_loop_step by auto
qed

lemma entryPoints_loop_throws:
  assumes "\<forall>x\<in>set pre. \<exists>r. resolvePackageEntry_attempt f env pkg options x = Inr r
             \<and> \<not> truthy r"
    and "resolvePackageEntry_attempt f env pkg options entry = Inl e"
  shows "entryPoints_loop f env postfix pkg options (pre @ entry # rest) = Inl e"
  using assms
proof (induction pre)
  case Nil
  then show ?case unfolding append_Nil entryPoints_loop_step by simp
next
  case (Cons x pre)
  then show ?case unfolding append_Cons entryPoints_loop_step by auto
qed


lemma entryPoints_loop_hit:
  assumes "\<forall>x\<in>set pre. \<exists>r. resolvePackageEntry_attempt f env pkg options x = Inr r
             \<and> \<not> truthy r"
    and "resolvePackageEntry_attempt f env pkg options entry = Inr (Some res)"
    and "res \<noteq> []"
  shows "entryPoints_loop f env postfix pkg options (pre @ entry # rest)
           = Inr (Some (res @ postfix, setResolvedCache pkg ''.'' res))"
  using assms
proof (induction pre)
  case Nil
  then show ?case unfolding append_Nil entryPoints_loop_step by simp
next
  case (Cons x pre)
  then show ?case unfolding append_Cons entryPoints_loop_step by auto
qed

lemma withPostfix_miss:
  "\<not> truthy cached \<Longrightarrow> withPostfix cached postfix = None"
  by (cases cached) auto

text \<open>
  C3. \<^verbatim>\<open>resolvePackageEntry\<close> never returns \<^verbatim>\<open>undefined\<close>, and every error it throws has
  the code \<^verbatim>\<open>ERR_RESOLVE_PACKAGE_ENTRY_FAIL\<close> and a message that holds the specifier.
  When the entry is not cached, the candidates are tried in turn:
  \<^item> when every candidate fails to resolve on the file system, it throws that error,
    without a detail;
  \<^item> when a candidate throws after the ones before it failed to resolve, or when
    finding the candidates throws, it throws that error with the message of the
    underlying error as the detail, and a non-empty detail ends the message;
  \<^item> when a candidate resolves after the ones before it failed to resolve, it
    returns the resolved path with the postfix of the specifier.
\<close>

theorem resolvePackageEntry_resolves_or_throws:
  "(\<forall>pkg'. resolvePackageEntry depth env ident pkg options \<noteq> Inr (None, pkg'))
   \<and> (\<forall>e. resolvePackageEntry depth env ident pkg options = Inl e
          \<longrightarrow> error_code e = Some ERR_RESOLVE_PACKAGE_ENTRY_FAIL
              \<and> includes_str (error_message e) ident
              \<and> (\<exists>details. e = packageEntryFailure ident details))
   \<and> (\<forall>entryPoints.
          \<not> truthy (getResolvedCache pkg ''.'')
          \<and> resolvePackageEntry_entryPoints
               (\<lambda>fsPath tryIndex skipPackageJson.
                  tryFsResolve depth env fsPath options tryIndex skipPackageJson)
               env pkg options = Inr entryPoints
          \<and> (\<forall>entry\<in>set entryPoints.
                \<exists>r. resolvePackageEntry_attempt
                       (\<lambda>fsPath tryIndex skipPackageJson.
                          tryFsResolve depth env fsPath options tryIndex skipPackageJson)
                       env pkg options entry = Inr r
                    \<and> \<not> truthy r)
          \<longrightarrow> resolvePackageEntry depth env ident pkg options
                = Inl (packageEntryFailure ident None))
   \<and> (\<forall>pre entry rest e'.
          \<not> truthy (getResolvedCache pkg ''.'')
          \<and> resolvePackageEntry_entryPoints
               (\<lambda>fsPath tryIndex skipPackageJson.
                  tryFsResolve depth env fsPath options tryIndex skipPackageJson)
               env pkg options = Inr (pre @ entry # rest)
          \<and> (\<forall>x\<in>set pre.
                \<exists>r. resolvePackageEntry_attempt
                       (\<lambda>fsPath tryIndex skipPackageJson.
                          tryFsResolve depth env fsPath options tryIndex skipPackageJson)
                       env pkg options x = Inr r
                    \<and> \<not> truthy r)
          \<and> resolvePackageEntry_attempt
               (\<lambda>fsPath tryIndex skipPackageJson.
                  tryFsResolve depth env fsPath options tryIndex skipPackageJson)
               env pkg options entry = Inl e'
          \<longrightarrow> resolvePackageEntry depth env ident pkg options
                = Inl (packageEntryFailure ident (Some (error_message e')))
              \<and> (error_message e' \<noteq> []
                   \<longrightarrow> endsWith (error_message (packageEntryFailure ident (Some (error_message e'))))
                         ('': '' @ error_message e')))
   \<and> (\<forall>e'.
          \<not> truthy (getResolvedCache pkg ''.'')
          \<and> resolvePackageEntry_entryPoints
               (\<lambda>fsPath tryIndex skipPackageJson.
                  tryFsResolve depth env fsPath options tryIndex skipPackageJson)
               env pkg options = Inl e'
          \<longrightarrow> resolvePackageEntry depth env ident pkg options
                = Inl (packageEntryFailure ident (Some (error_message e')))
              \<and> (error_message e' \<noteq> []
                   \<longrightarrow> endsWith (error_message (packageEntryFailure ident (Some (error_message e'))))
                         ('': '' @ error_message e')))
   \<and> (\<forall>pre entry rest res.
          \<not> truthy (getResolvedCache pkg ''.'')
          \<and> resolvePackageEntry_entryPoints
               (\<lambda>fsPath tryIndex skipPackageJson.
                  tryFsResolve depth env fsPath options tryIndex skipPackageJson)
               env pkg options = Inr (pre @ entry # rest)
          \<and> (\<forall>x\<in>set pre.
                \<exists>r. resolvePackageEntry_attempt
                       (\<lambda>fsPath tryIndex skipPackageJson.
                          tryFsResolve depth env fsPath options tryIndex skipPackageJson)
                       env pkg options x = Inr r
                    \<and> \<not> truthy r)
          \<and> resolvePackageEntry_attempt
               (\<lambda>fsPath tryIndex skipPackageJson.
                  tryFsResolve depth env fsPath options tryIndex skipPackageJson)
               env pkg options entry = Inr (Some res)
          \<and> res \<noteq> []
          \<longrightarrow> resolvePackageEntry depth env ident pkg options
                = Inr (Some (res @ snd (splitFileAndPostfix ident)),
                       setResolvedCache pkg ''.'' res))"
proof -
  let ?f = "\<lambda>fsPath tryIndex skipPackageJson.
              tryFsResolve depth env fsPath options tryIndex skipPackageJson"
  obtain idw postfix where sp: "splitFileAndPostfix ident = (idw, postfix)"
    by (cases "splitFileAndPostfix ident")
  note body = resolvePackageEntry_body_cases [OF sp, of ?f env pkg options]
  note tryeq = resolvePackageEntry_try_entryPoints [of ?f env postfix pkg options]
  have a: "\<forall>pkg'. resolvePackageEntry depth env ident pkg options \<noteq> Inr (None, pkg')"
    unfolding resolvePackageEntry.simps by (simp add: resolvePackageEntry_body_defined)
  have b: "error_code e = Some ERR_RESOLVE_PACKAGE_ENTRY_FAIL
              \<and> includes_str (error_message e) ident
              \<and> (\<exists>details. e = packageEntryFailure ident details)"
    if "resolvePackageEntry depth env ident pkg options = Inl e" for e
    using resolvePackageEntry_error [OF that] packageEntryFailure_facts by auto
  have thrown: "resolvePackageEntry depth env ident pkg options
                = Inl (packageEntryFailure ident (Some (error_message e')))
              \<and> (error_message e' \<noteq> []
                   \<longrightarrow> endsWith (error_message (packageEntryFailure ident (Some (error_message e'))))
                         ('': '' @ error_message e'))"
    if "\<not> truthy (getResolvedCache pkg ''.'')"
       "resolvePackageEntry_try ?f env postfix pkg options = Inl e'"
    for e'
  proof -
    have "resolvePackageEntry depth env ident pkg options
                = Inl (packageEntryFailure ident (Some (error_message e')))"
      using that unfolding resolvePackageEntry.simps body by (simp add: withPostfix_miss)
    with packageEntryFailure_details [of "error_message e'" ident] show ?thesis by blast
  qed
  have c: "resolvePackageEntry depth env ident pkg options = Inl (packageEntryFailure ident None)"
    if "\<not> truthy (getResolvedCache pkg ''.'')"
       "resolvePackageEntry_entryPoints ?f env pkg options = Inr entryPoints"
       "\<forall>entry\<in>set entryPoints.
          \<exists>r. resolvePackageEntry_attempt ?f env pkg options entry = Inr r \<and> \<not> truthy r"
    for entryPoints
  proof -
    have "resolvePackageEntry_try ?f env postfix pkg options = Inr None"
      unfolding tryeq that(2) using entryPoints_loop_none [OF that(3)] by simp
    then show ?thesis
      using that(1) unfolding resolvePackageEntry.simps body by (simp add: withPostfix_miss)
  qed
  have d: "resolvePackageEntry depth env ident pkg options
                = Inl (packageEntryFailure ident (Some (error_message e')))
              \<and> (error_message e' \<noteq> []
                   \<longrightarrow> endsWith (error_message (packageEntryFailure ident (Some (error_message e'))))
                         ('': '' @ error_message e'))"
    if "\<not> truthy (getResolvedCache pkg ''.'')"
       "resolvePackageEntry_entryPoints ?f env pkg options = Inr (pre @ entry # rest)"
       "\<forall>x\<in>set pre.
          \<exists>r. resolvePackageEntry_attempt ?f env pkg options x = Inr r \<and> \<not> truthy r"
       "resolvePackageEntry_attempt ?f env pkg options entry = Inl e'"
    for pre entry rest e'
  proof -
    have "resolvePackageEntry_try ?f env postfix pkg options = Inl e'"
      unfolding tryeq that(2) using entryPoints_loop_throws [OF that(3,4)] by simp
    with that(1) show ?thesis by (rule thrown)
  qed
  have e: "resolvePackageEntry depth env ident pkg options
                = Inl (packageEntryFailure ident (Some (error_message e')))
              \<and> (error_message e' \<noteq> []
                   \<longrightarrow> endsWith (error_message (packageEntryFailure ident (Some (error_message e'))))
                         ('': '' @ error_message e'))"
    if "\<not> truthy (getResolvedCache pkg ''.'')"
       "resolvePackageEntry_entryPoints ?f env pkg options = Inl e'"
    for e'
  proof -
    have "resolvePackageEntry_try ?f env postfix pkg options = Inl e'"
      unfolding tryeq that(2) by simp
    with that(1) show ?thesis by (rule thrown)
  qed
  have f: "resolvePackageEntry depth env ident pkg options
                = Inr (Some (res @ snd (splitFileAndPostfix ident)),
                       setResolvedCache pkg ''.'' res)"
    if "\<not> truthy (getResolvedCache pkg ''.'')"
       "resolvePackageEntry_entryPoints ?f env pkg options = Inr (pre @ entry # rest)"
       "\<forall>x\<in>set pre.
          \<exists>r. resolvePackageEntry_attempt ?f env pkg options x = Inr r \<and> \<not> truthy r"
       "resolvePackageEntry_attempt ?f env pkg options entry = Inr (Some res)"
       "res \<noteq> []"
    for pre entry rest res
  proof -
    have "resolvePackageEntry_try ?f env postfix pkg options
            = Inr (Some (res @ postfix, setResolvedCache pkg ''.'' res))"
      unfolding tryeq that(2) using entryPoints_loop_hit [OF that(3,4,5)] by simp
    then show ?thesis
      using that(1) unfolding resolvePackageEntry.simps body sp
      by (simp add: withPostfix_miss)
  qed
  show ?thesis
    apply (intro conjI)
    subgoal by (rule a)
    subgoal by (intro allI impI, rule b, assumption)
    subgoal by (intro allI impI, elim conjE, rule c, assumption+)
    subgoal by (intro allI impI, elim conjE, rule d, assumption+)
    subgoal by (intro allI impI, elim conjE, rule e, assumption+)
    subgoal by (intro allI impI, elim conjE, rule f, assumption+)
    done
qed


theorem resolvePackageEntry_resolves_or_throws_witness:
  "\<not> truthy (getResolvedCache broken_pkg ''.'')
   \<and> resolvePackageEntry_entryPoints
         (\<lambda>fsPath tryIndex skipPackageJson.
            tryFsResolve 0 faulty_env fsPath default_options tryIndex skipPackageJson)
         faulty_env broken_pkg default_options = Inr [''missing.js'']
   \<and> resolvePackageEntry_attempt
         (\<lambda>fsPath tryIndex skipPackageJson.
            tryFsResolve 0 faulty_env fsPath default_options tryIndex skipPackageJson)
         faulty_env broken_pkg default_options ''missing.js'' = Inr None
   \<and> resolvePackageEntry 0 faulty_env ''broken'' broken_pkg default_options
       = Inl (packageEntryFailure ''broken'' None)
   \<and> error_code (packageEntryFailure ''broken'' None) = Some ERR_RESOLVE_PACKAGE_ENTRY_FAIL
   \<and> includes_str (error_message (packageEntryFailure ''broken'' None)) ''broken''
   \<and> \<not> truthy (getResolvedCache outer_pkg ''.'')
   \<and> resolvePackageEntry_entryPoints
         (\<lambda>fsPath tryIndex skipPackageJson.
            tryFsResolve 0 corrupt_env fsPath default_options tryIndex skipPackageJson)
         corrupt_env outer_pkg default_options = Inr [''lib'']
   \<and> resolvePackageEntry_attempt
         (\<lambda>fsPath tryIndex skipPackageJson.
            tryFsResolve 0 corrupt_env fsPath default_options tryIndex skipPackageJson)
         corrupt_env outer_pkg default_options ''lib'' = Inl (CollaboratorError ''Unexpected end of JSON input'' None)
   \<and> resolvePackageEntry 0 corrupt_env ''outer'' outer_pkg default_options
       = Inl (packageEntryFailure ''outer'' (Some ''Unexpected end of JSON input''))
   \<and> endsWith (error_message (packageEntryFailure ''outer'' (Some ''Unexpected end of JSON input'')))
         '': Unexpected end of JSON input''
   \<and> \<not> truthy (getResolvedCache cond_pkg ''.'')
   \<and> resolvePackageEntry_entryPoints
         (\<lambda>fsPath tryIndex skipPackageJson.
            tryFsResolve 0 faulty_env fsPath default_options tryIndex skipPackageJson)
         faulty_env cond_pkg default_options
       = Inl (CollaboratorError ''No known conditions for \".\" specifier in \"cond\" package'' None)
   \<and> resolvePackageEntry 0 faulty_env ''cond'' cond_pkg default_options
       = Inl (packageEntryFailure ''cond'' (Some ''No known conditions for \".\" specifier in \"cond\" package''))
   \<and> \<not> truthy (getResolvedCache plain_pkg ''.'')
   \<and> resolvePackageEntry_entryPoints
         (\<lambda>fsPath tryIndex skipPackageJson.
            tryFsResolve 0 project_env fsPath default_options tryIndex skipPackageJson)
         project_env plain_pkg default_options = Inr [''index.js'']
   \<and> resolvePackageEntry_attempt
         (\<lambda>fsPath tryIndex skipPackageJson.
            tryFsResolve 0 project_env fsPath default_options tryIndex skipPackageJson)
         project_env plain_pkg default_options ''index.js'' = Inr (Some ''/app/node_modules/plain/index.js'')
   \<and> resolvePackageEntry 0 project_env ''plain?inline'' plain_pkg default_options
       = Inr (Some ''/app/node_modules/plain/index.js?inline'',
              setResolvedCache plain_pkg ''.'' ''/app/node_modules/plain/index.js'')"
proof -
  note T = resolvePackageEntry_resolves_or_throws
  have m1: "\<not> truthy (getResolvedCache broken_pkg ''.'')"
    by code_simp
  have e1: "resolvePackageEntry_entryPoints
         (\<lambda>fsPath tryIndex skipPackageJson.
            tryFsResolve 0 faulty_env fsPath default_options tryIndex skipPackageJson)
         faulty_env broken_pkg default_options = Inr [''missing.js'']"
    by code_simp
  have a1: "resolvePackageEntry_attempt
         (\<lambda>fsPath tryIndex skipPackageJson.
            tryFsResolve 0 faulty_env fsPath default_options tryIndex skipPackageJson)
         faulty_env broken_pkg default_options ''missing.js'' = Inr None"
    by code_simp
  then have n1: "\<forall>entry\<in>set [''missing.js''].
              \<exists>r. resolvePackageEntry_attempt
         (\<lambda>fsPath tryIndex skipPackageJson.
            tryFsResolve 0 faulty_env fsPath default_options tryIndex skipPackageJson)
         faulty_env broken_pkg default_options entry = Inr r \<and> \<not> truthy r"
    by simp
  have r1: "resolvePackageEntry 0 faulty_env ''broken'' broken_pkg default_options
              = Inl (packageEntryFailure ''broken'' None)"
    using T [where depth = 0 and env = faulty_env and ident = "''broken''"
               and pkg = broken_pkg and options = default_options,
             THEN conjunct2, THEN conjunct2, THEN conjunct1, THEN spec, THEN mp,
             OF conjI [OF m1 conjI [OF e1 n1]]] .
  have c1: "error_code (packageEntryFailure ''broken'' None)
              = Some ERR_RESOLVE_PACKAGE_ENTRY_FAIL"
    and i1: "includes_str (error_message (packageEntryFailure ''broken'' None)) ''broken''"
    using T [where depth = 0 and env = faulty_env and ident = "''broken''"
               and pkg = broken_pkg and options = default_options,
             THEN conjunct2, THEN conjunct1, THEN spec, THEN mp, OF r1]
    by simp_all
  have m2: "\<not> truthy (getResolvedCache outer_pkg ''.'')"
    by code_simp
  have e2: "resolvePackageEntry_entryPoints
         (\<lambda>fsPath tryIndex skipPackageJson.
            tryFsResolve 0 corrupt_env fsPath default_options tryIndex skipPackageJson)
         corrupt_env outer_pkg default_options = Inr ([] @ ''lib'' # [])"
    by code_simp
  have a2: "resolvePackageEntry_attempt
         (\<lambda>fsPath tryIndex skipPackageJson.
            tryFsResolve 0 corrupt_env fsPath default_options tryIndex skipPackageJson)
         corrupt_env outer_pkg default_options ''lib'' = Inl (CollaboratorError ''Unexpected end of JSON input'' None)"
    by code_simp
  have n2: "\<forall>x\<in>set [].
              \<exists>r. resolvePackageEntry_attempt
         (\<lambda>fsPath tryIndex skipPackageJson.
            tryFsResolve 0 corrupt_env fsPath default_options tryIndex skipPackageJson)
         corrupt_env outer_pkg default_options x = Inr r \<and> \<not> truthy r"
    by simp
  note D2 = T [where depth = 0 and env = corrupt_env and ident = "''outer''"
                 and pkg = outer_pkg and options = default_options,
               THEN conjunct2, THEN conjunct2, THEN conjunct2, THEN conjunct1,
               THEN spec, THEN spec, THEN spec, THEN spec, THEN mp,
               OF conjI [OF m2 conjI [OF e2 conjI [OF n2 a2]]]]
  have r2: "resolvePackageEntry 0 corrupt_env ''outer'' outer_pkg default_options
              = Inl (packageEntryFailure ''outer'' (Some ''Unexpected end of JSON input''))"
    using D2 [THEN conjunct1] by simp
  have w2: "endsWith (error_message (packageEntryFailure ''outer'' (Some ''Unexpected end of JSON input'')))
              '': Unexpected end of JSON input''"
    using D2 [THEN conjunct2] by simp
  have m3: "\<not> truthy (getResolvedCache cond_pkg ''.'')"
    by code_simp
  have e3: "resolvePackageEntry_entryPoints
         (\<lambda>fsPath tryIndex skipPackageJson.
            tryFsResolve 0 faulty_env fsPath default_options tryIndex skipPackageJson)
         faulty_env cond_pkg default_options
              = Inl (CollaboratorError ''No known conditions for \".\" specifier in \"cond\" package'' None)"
    by code_simp
  have r3: "resolvePackageEntry 0 faulty_env ''cond'' cond_pkg default_options
              = Inl (packageEntryFailure ''cond'' (Some ''No known conditions for \".\" specifier in \"cond\" package''))"
    using T [where depth = 0 and env = faulty_env and ident = "''cond''"
               and pkg = cond_pkg and options = default_options,
             THEN conjunct2, THEN conjunct2, THEN conjunct2, THEN conjunct2, THEN conjunct1,
             THEN spec, THEN mp, OF conjI [OF m3 e3], THEN conjunct1]
    by simp
  have m4: "\<not> truthy (getResolvedCache plain_pkg ''.'')"
    by code_simp
  have e4: "resolvePackageEntry_entryPoints
         (\<lambda>fsPath tryIndex skipPackageJson.
            tryFsResolve 0 project_env fsPath default_options tryIndex skipPackageJson)
         project_env plain_pkg default_options = Inr ([] @ ''index.js'' # [])"
    by code_simp
  have a4: "resolvePackageEntry_attempt
         (\<lambda>fsPath tryIndex skipPackageJson.
            tryFsResolve 0 project_env fsPath default_options tryIndex skipPackageJson)
         project_env plain_pkg default_options ''index.js'' = Inr (Some ''/app/node_modules/plain/index.js'')"
    by code_simp
  have n4: "\<forall>x\<in>set [].
              \<exists>r. resolvePackageEntry_attempt
         (\<lambda>fsPath tryIndex skipPackageJson.
            tryFsResolve 0 project_env fsPath default_options tryIndex skipPackageJson)
         project_env plain_pkg default_options x = Inr r \<and> \<not> truthy r"
    by simp
  have ne4: "''/app/node_modules/plain/index.js'' \<noteq> []"
    by simp
  have sp4: "snd (splitFileAndPostfix ''plain?inline'') = ''?inline''"
    by code_simp
  have r4: "resolvePackageEntry 0 project_env ''plain?inline'' plain_pkg default_options
       = Inr (Some ''/app/node_modules/plain/index.js?inline'',
              setResolvedCache plain_pkg ''.'' ''/app/node_modules/plain/index.js'')"
    using T [where depth = 0 and env = project_env and ident = "''plain?inline''"
               and pkg = plain_pkg and options = default_options,
             THEN conjunct2, THEN conjunct2, THEN conjunct2, THEN conjunct2, THEN conjunct2,
             THEN spec, THEN spec, THEN spec, THEN spec, THEN mp,
             OF conjI [OF m4 conjI [OF e4 conjI [OF n4 conjI [OF a4 ne4]]]]]
    unfolding sp4 by simp
  from e2 have e2': "resolvePackageEntry_entryPoints
         (\<lambda>fsPath tryIndex skipPackageJson.
            tryFsResolve 0 corrupt_env fsPath default_options tryIndex skipPackageJson)
         corrupt_env outer_pkg default_options = Inr [''lib'']"
    by simp
  from e4 have e4': "resolvePackageEntry_entryPoints
         (\<lambda>fsPath tryIndex skipPackageJson.
            tryFsResolve 0 project_env fsPath default_options tryIndex skipPackageJson)
         project_env plain_pkg default_options = Inr [''index.js'']"
    by simp
  show ?thesis
    apply (intro conjI)
    subgoal by (rule m1)
    subgoal by (rule e1)
    subgoal by (rule a1)
    subgoal by (rule r1)
    subgoal by (rule c1)
    subgoal by (rule i1)
    subgoal by (rule m2)
    subgoal by (rule e2')
    subgoal by (rule a2)
    subgoal by (rule r2)
    subgoal by (rule w2)
    subgoal by (rule m3)
    subgoal by (rule e3)
    subgoal by (rule r3)
    subgoal by (rule m4)
    subgoal by (rule e4')
    subgoal by (rule a4)
    subgoal by (rule r4)
    done
qed

section \<open>A falsy browser mapping leaves a root entry alone\<close>

lemma entryCandidate_falsy_mapping:
  assumes "data_browser data = Some (BrowserObject m)"
    and "mapWithBrowserField (path_posix_normalize env) entry m = Some BrowserFalse
         \<or> mapWithBrowserField (path_posix_normalize env) entry m = Some (BrowserPath [])"
  shows "entryCandidate env data options entry =
           (if (case opt_mainFields options of [] \<Rightarrow> False | f # fs \<Rightarrow> f = ''sass'')
               \<and> path_extname env entry \<notin> set (opt_extensions options)
            then ([], True) else (entry, False))"
  using assms by (auto simp: entryCandidate_def)

lemma resolvePackageEntry_from_fs:
  assumes "\<not> truthy (getResolvedCache pkg ''.'')"
    and "resolvePackageEntry depth env ident pkg options = Inr (Some resolved, pkg')"
  shows "\<exists>entry skip res.
           tryFsResolve depth env (path_join env (pkg_dir pkg) entry) options True skip = Inr (Some res)
           \<and> res \<noteq> [] \<and> resolved = res @ snd (splitFileAndPostfix ident)"
proof -
  let ?f = "\<lambda>fsPath tryIndex skipPackageJson.
              tryFsResolve depth env fsPath options tryIndex skipPackageJson"
  obtain idw postfix where sp: "splitFileAndPostfix ident = (idw, postfix)"
    by (cases "splitFileAndPostfix ident")
  have miss: "withPostfix (getResolvedCache pkg ''.'') postfix = None"
    using assms(1) by (cases "getResolvedCache pkg ''.''") auto
  from assms(2) have "resolvePackageEntry_try ?f env postfix pkg options = Inr (Some (resolved, pkg'))"
    unfolding resolvePackageEntry.simps resolvePackageEntry_body_cases [OF sp] miss
    by (auto split: sum.splits option.splits)
  from resolvePackageEntry_try_success [OF this] show ?thesis
    unfolding sp by auto
qed

lemma resolveDeepImport_browser_external:
  assumes "\<not> truthy (getResolvedCache pkg ident)"
    and "\<not> exports_truthy (data_exports (pkg_data pkg))"
    and "data_browser (pkg_data pkg) = Some (BrowserObject m)"
    and "''browser'' \<in> set (opt_mainFields options)"
    and "mapWithBrowserField (path_posix_normalize env) (fst (splitFileAndPostfix ident)) m
           = Some BrowserFalse"
  shows "resolveDeepImport depth env ident pkg options
           = Inr (Some browserExternalId, setResolvedCache pkg ident browserExternalId)"
proof -
  have "resolveDeepImport_relativeId env ident pkg options = Inr BrowserExternal"
    using assms(2-5) by (simp add: resolveDeepImport_relativeId_def Let_def split_beta)
  with assms(1) show ?thesis by (simp add: resolveDeepImport_def Let_def)
qed

text \<open>
  C9. When the object-form browser field maps a candidate of the root entry to
  \<^verbatim>\<open>false\<close> or to the empty string, the candidate that \<^verbatim>\<open>resolvePackageEntry\<close> probes
  is the one it would probe without the mapping: the entry itself (or, under the
  stylesheet rule, the empty entry). Whatever \<^verbatim>\<open>resolvePackageEntry\<close> returns on a
  cache miss is a path that \<^verbatim>\<open>tryFsResolve\<close> found for a candidate under the package
  directory, with the postfix: it makes no browser-external id. \<^verbatim>\<open>resolveDeepImport\<close>
  does return the browser-external id, when the table maps the subpath to \<^verbatim>\<open>false\<close>.
\<close>

theorem browser_false_only_externalizes_deep_imports:
  "(data_browser data = Some (BrowserObject m)
      \<and> (mapWithBrowserField (path_posix_normalize env) entry m = Some BrowserFalse
         \<or> mapWithBrowserField (path_posix_normalize env) entry m = Some (BrowserPath []))
    \<longrightarrow> entryCandidate env data options entry =
           (if (case opt_mainFields options of [] \<Rightarrow> False | f # fs \<Rightarrow> f = ''sass'')
               \<and> path_extname env entry \<notin> set (opt_extensions options)
            then ([], True) else (entry, False)))
   \<and> (\<not> truthy (getResolvedCache pkg ''.'')
        \<and> resolvePackageEntry depth env ident pkg options = Inr (Some resolved, pkg')
      \<longrightarrow> (\<exists>candidate skip res.
             tryFsResolve depth env (path_join env (pkg_dir pkg) candidate) options True skip
               = Inr (Some res)
             \<and> res \<noteq> [] \<and> resolved = res @ snd (splitFileAndPostfix ident)))
   \<and> (\<not> truthy (getResolvedCache pkg ident)
        \<and> \<not> exports_truthy (data_exports (pkg_data pkg))
        \<and> data_browser (pkg_data pkg) = Some (BrowserObject m')
        \<and> ''browser'' \<in> set (opt_mainFields options)
        \<and> mapWithBrowserField (path_posix_normalize env) (fst (splitFileAndPostfix ident)) m'
            = Some BrowserFalse
      \<longrightarrow> resolveDeepImport depth env ident pkg options
            = Inr (Some browserExternalId, setResolvedCache pkg ident browserExternalId))"
  using entryCandidate_falsy_mapping [of data m env entry options]
        resolvePackageEntry_from_fs [of pkg depth env ident options resolved pkg']
        resolveDeepImport_browser_external [of pkg ident m' options env depth]
  by blast


theorem browser_false_only_externalizes_deep_imports_witness:
  "data_browser (pkg_data br_pkg)
     = Some (BrowserObject [(''./index.js'', BrowserFalse), (''./server.js'', BrowserFalse)])
   \<and> mapWithBrowserField (path_posix_normalize project_env) ''index.js''
         [(''./index.js'', BrowserFalse), (''./server.js'', BrowserFalse)] = Some BrowserFalse
   \<and> entryCandidate project_env (pkg_data br_pkg) default_options ''index.js''
       = (''index.js'', False)
   \<and> \<not> truthy (getResolvedCache br_pkg ''.'')
   \<and> map_sum id fst (resolvePackageEntry 0 project_env ''br'' br_pkg default_options)
       = Inr (Some ''/app/node_modules/br/index.js'')
   \<and> (\<exists>candidate skip res.
         tryFsResolve 0 project_env (path_join project_env (pkg_dir br_pkg) candidate)
           default_options True skip = Inr (Some res)
         \<and> res \<noteq> []
         \<and> ''/app/node_modules/br/index.js'' = res @ snd (splitFileAndPostfix ''br''))
   \<and> \<not> truthy (getResolvedCache br_pkg ''./server.js'')
   \<and> \<not> exports_truthy (data_exports (pkg_data br_pkg))
   \<and> ''browser'' \<in> set (opt_mainFields default_options)
   \<and> mapWithBrowserField (path_posix_normalize project_env)
         (fst (splitFileAndPostfix ''./server.js''))
         [(''./index.js'', BrowserFalse), (''./server.js'', BrowserFalse)] = Some BrowserFalse
   \<and> map_sum id fst (resolveDeepImport 0 project_env ''./server.js'' br_pkg default_options)
       = Inr (Some browserExternalId)"
proof -
  let ?m = "[(''./index.js'', BrowserFalse), (''./server.js'', BrowserFalse)]"
  have b: "data_browser (pkg_data br_pkg) = Some (BrowserObject ?m)"
    by (simp add: br_pkg_def package_at_def empty_manifest_def)
  have f: "mapWithBrowserField (path_posix_normalize project_env) ''index.js'' ?m
             = Some BrowserFalse"
    by code_simp
  have s: "\<not> ((case opt_mainFields default_options of [] \<Rightarrow> False | f # fs \<Rightarrow> f = ''sass'')
               \<and> path_extname project_env ''index.js'' \<notin> set (opt_extensions default_options))"
    by code_simp
  note T = browser_false_only_externalizes_deep_imports
             [where env = project_env and options = default_options and depth = 0
                and pkg = br_pkg]
  have c: "entryCandidate project_env (pkg_data br_pkg) default_options ''index.js''
             = (''index.js'', False)"
    using T [where data = "pkg_data br_pkg" and m = ?m and entry = "''index.js''",
             THEN conjunct1] b f s
    by simp
  have m: "\<not> truthy (getResolvedCache br_pkg ''.'')"
    by code_simp
  have e: "map_sum id fst (resolvePackageEntry 0 project_env ''br'' br_pkg default_options)
             = Inr (Some ''/app/node_modules/br/index.js'')"
    by code_simp
  then obtain p where y:
    "resolvePackageEntry 0 project_env ''br'' br_pkg default_options
       = Inr (Some ''/app/node_modules/br/index.js'', p)"
    by (cases "resolvePackageEntry 0 project_env ''br'' br_pkg default_options") auto
  have g: "\<exists>candidate skip res.
         tryFsResolve 0 project_env (path_join project_env (pkg_dir br_pkg) candidate)
           default_options True skip = Inr (Some res)
         \<and> res \<noteq> []
         \<and> ''/app/node_modules/br/index.js'' = res @ snd (splitFileAndPostfix ''br'')"
    using T [where ident = "''br''" and resolved = "''/app/node_modules/br/index.js''"
               and pkg' = p, THEN conjunct2, THEN conjunct1] m y
    by blast
  have m2: "\<not> truthy (getResolvedCache br_pkg ''./server.js'')"
    by code_simp
  have x: "\<not> exports_truthy (data_exports (pkg_data br_pkg))"
    by code_simp
  have mf: "''browser'' \<in> set (opt_mainFields default_options)"
    by code_simp
  have f2: "mapWithBrowserField (path_posix_normalize project_env)
         (fst (splitFileAndPostfix ''./server.js'')) ?m = Some BrowserFalse"
    by code_simp
  have "resolveDeepImport 0 project_env ''./server.js'' br_pkg default_options
          = Inr (Some browserExternalId,
                 setResolvedCache br_pkg ''./server.js'' browserExternalId)"
    using T [where ident = "''./server.js''" and m' = ?m,
             THEN conjunct2, THEN conjunct2] m2 x b mf f2
    by blast
  then have d: "map_sum id fst
                  (resolveDeepImport 0 project_env ''./server.js'' br_pkg default_options)
                = Inr (Some browserExternalId)"
    by simp
  from b f c m e g m2 x mf f2 d show ?thesis by blast
qed

section \<open>A package that names itself\<close>









section \<open>Optional peer dependencies that are not installed\<close>

text \<open>
  C6. The package \<^verbatim>\<open>consumer\<close> lists \<^verbatim>\<open>bar\<close> as an optional peer dependency, \<^verbatim>\<open>bar\<close> is
  not installed, and a module of \<^verbatim>\<open>consumer\<close> imports it. For the specifier \<^verbatim>\<open>bar\<close>,
  \<^verbatim>\<open>tryNodeResolve\<close> returns the optional peer dependency id. For the specifier
  \<^verbatim>\<open>bar?inline\<close> the package looked up is \<^verbatim>\<open>bar\<close> as well, the postfix being trimmed
  from the package name (line 320), and no package is found; but the peer
  dependencies are searched for \<^verbatim>\<open>bar?inline\<close> (line 364), so that \<^verbatim>\<open>tryNodeResolve\<close>
  returns \<^verbatim>\<open>undefined\<close>. It returns \<^verbatim>\<open>undefined\<close> for the specifier \<^verbatim>\<open>bar\<close> too when the
  version range under which \<^verbatim>\<open>bar\<close> is listed is the empty string, the entry being
  tested for truthiness (line 367).
\<close>

theorem tryNodeResolve_optional_peer_missed:
  "map_sum id fst
     (tryNodeResolve 0 project_env no_policy ''bar''
        (Some ''/app/node_modules/consumer/index.js'') default_options None False)
     = Inr (Some (optionalPeerDep ''bar'' ''consumer''))
   \<and> tryNodeResolve_pkgId project_env ''bar?inline'' = ''bar''
   \<and> map_option pkg_dir
         (tryNodeResolve_pkg project_env ''bar?inline''
            (Some ''/app/node_modules/consumer/index.js'') default_options) = None
   \<and> tryNodeResolve_basedir project_env ''bar?inline''
         (Some ''/app/node_modules/consumer/index.js'') default_options
       = ''/app/node_modules/consumer''
   \<and> ''/app/node_modules/consumer'' \<noteq> opt_root default_options
   \<and> \<not> isBuiltin project_env (opt_builtins default_options) ''bar?inline''
   \<and> CHR 0x00 \<notin> set ''bar?inline''
   \<and> bareImportRE_test project_env ''bar?inline''
   \<and> map_option (\<lambda>m. (data_name (pkg_data m), listsOptionalPeer (pkg_data m) ''bar''))
         (findNearestMainPackageData project_env ''/app/node_modules/consumer'')
       = Some (''consumer'', True)
   \<and> getNpmPackageName project_env ''bar?inline'' = Some ''bar?inline''
   \<and> map_sum id fst
         (tryNodeResolve 0 project_env no_policy ''bar?inline''
            (Some ''/app/node_modules/consumer/index.js'') default_options None False)
       = Inr None
   \<and> map_option pkg_dir
         (tryNodeResolve_pkg anyversion_env ''bar''
            (Some ''/app/node_modules/consumer/index.js'') default_options) = None
   \<and> tryNodeResolve_basedir anyversion_env ''bar''
         (Some ''/app/node_modules/consumer/index.js'') default_options
       = ''/app/node_modules/consumer''
   \<and> \<not> isBuiltin anyversion_env (opt_builtins default_options) ''bar''
   \<and> bareImportRE_test anyversion_env ''bar''
   \<and> getNpmPackageName anyversion_env ''bar'' = Some ''bar''
   \<and> map_option (\<lambda>m. (data_name (pkg_data m),
                        data_peerDependencies (pkg_data m),
                        listsOptionalPeer (pkg_data m) ''bar''))
         (findNearestMainPackageData anyversion_env ''/app/node_modules/consumer'')
       = Some (''consumer'', Some [(''bar'', [])], True)
   \<and> map_sum id fst
         (tryNodeResolve 0 anyversion_env no_policy ''bar''
            (Some ''/app/node_modules/consumer/index.js'') default_options None False)
       = Inr None"
  by code_simp

end
